theory Spec2Isabelle
  imports Main "HOL-Library.AList" "HOL-Library.Monad_Syntax"
begin

section \<open>The secure data proxy: values\<close>

text \<open>
  Modelled from the spec: the \<open>EncryptedPayload\<close> type. The proxy imports it, with
  \<open>encryptData\<close>, from \<open>../_shared/encryption.ts\<close>, which is not among the source
  files. The spec's data model gives the envelope four fields, all needed to decrypt:
  algorithm tag, initialization vector, authentication tag and ciphertext.
\<close>

datatype EncryptedPayload =
  EncryptedPayload (algorithm_tag: string) (initialization_vector: string)
    (authentication_tag: string) (ciphertext: string)

text \<open>
  A row of the backing store is a \<open>Record<string, unknown>\<close>: a JSON object. JSON
  numbers are the integers here: the proxy tests a number for truthiness and compares
  a \<open>length\<close> with 4, and leaves the arithmetic on the durations to JavaScript.
  \<open>JEnvelope\<close> is a value of type \<open>EncryptedPayload\<close> inside a response; the
  backing store holds none.
\<close>

datatype json =
    JNull
  | JBool bool
  | JNum int
  | JStr string
  | JArr "json list"
  | JObj "(string \<times> json) list"
  | JEnvelope EncryptedPayload

type_synonym row = "(string \<times> json) list"

text \<open>JavaScript truthiness of a JSON value, and of a property that may be \<open>undefined\<close>
  (\<open>None\<close>).\<close>

fun truthy :: "json \<Rightarrow> bool" where
  "truthy JNull = False"
| "truthy (JBool b) = b"
| "truthy (JNum n) = (n \<noteq> 0)"
| "truthy (JStr s) = (s \<noteq> [])"
| "truthy (JArr xs) = True"
| "truthy (JObj kv) = True"
| "truthy (JEnvelope p) = True"

fun truthy_opt :: "json option \<Rightarrow> bool" where
  "truthy_opt None = False"
| "truthy_opt (Some v) = truthy v"

text \<open>\<open>v.k\<close> for a JSON value \<open>v\<close>: an object has its own keys; a string, number,
  boolean or array has none of the keys the proxy reads.\<close>

fun js_prop :: "json \<Rightarrow> string \<Rightarrow> json option" where
  "js_prop (JObj kv) k = map_of kv k"
| "js_prop v k = None"

text \<open>\<open>a === b\<close> on values read from two parsed JSON documents: primitives compare by
  value, two objects or arrays are never the same object.\<close>

fun strict_eq :: "json option \<Rightarrow> json option \<Rightarrow> bool" where
  "strict_eq None None = True"
| "strict_eq (Some JNull) (Some JNull) = True"
| "strict_eq (Some (JBool a)) (Some (JBool b)) = (a = b)"
| "strict_eq (Some (JNum a)) (Some (JNum b)) = (a = b)"
| "strict_eq (Some (JStr a)) (Some (JStr b)) = (a = b)"
| "strict_eq a b = False"

text \<open>\<open>[...new Set(xs)]\<close>: the first occurrence of each value, in insertion order.\<close>

fun js_set :: "json option list \<Rightarrow> json option list" where
  "js_set [] = []"
| "js_set (x # xs) = x # filter (\<lambda>y. \<not> strict_eq x y) (js_set xs)"

section \<open>Masking utilities\<close>

text \<open>The four functions have parameters of type \<open>string | null\<close>; \<open>None\<close> is \<open>null\<close>.
  \<open>!phone\<close> holds of \<open>null\<close> and of the empty string.\<close>

definition maskPhone :: "string option \<Rightarrow> string" where
  "maskPhone phone =
     (case phone of
        None \<Rightarrow> ''****''
      | Some p \<Rightarrow>
          if p = [] then ''****''
          else if length p \<le> 4 then ''****''
          else replicate (length p - 4) CHR ''*'' @ drop (length p - 4) p)"

definition maskUuid :: "string option \<Rightarrow> string" where
  "maskUuid uuid =
     (case uuid of
        None \<Rightarrow> ''********''
      | Some u \<Rightarrow> if u = [] then ''********'' else take 8 u @ ''...'')"

definition maskSystemPrompt :: "string option \<Rightarrow> string option" where
  "maskSystemPrompt prompt =
     (case prompt of
        None \<Rightarrow> None
      | Some p \<Rightarrow> if p = [] then None else Some ''[System prompt configured]'')"

definition proxyRecordingUrl :: "string option \<Rightarrow> string \<Rightarrow> string option" where
  "proxyRecordingUrl url callId =
     (case url of
        None \<Rightarrow> None
      | Some u \<Rightarrow> if u = [] then None else Some (''proxy:recording:'' @ callId))"

section \<open>The environment of a request\<close>

text \<open>
  A query as the handlers build it with the store's client: \<open>from\<close>, \<open>select\<close>, the
  filters \<open>eq\<close>, \<open>gte\<close> and \<open>in\<close> in the order they are added, \<open>order\<close> (column,
  ascending) and \<open>single\<close>.
\<close>

datatype query_filter =
    FEq string string
  | FGte string string
  | FIn string "json option list"

record query =
  q_from :: string
  q_select :: "string list"
  q_filters :: "query_filter list"
  q_order :: "(string \<times> bool) option"
  q_single :: bool

text \<open>
  What a request depends on outside the proxy:
  \<^item> \<open>getUser\<close>: the identity service, from the \<open>Authorization\<close> header to the user's id;
    \<open>None\<close> when it reports an error or no user;
  \<^item> \<open>store\<close>: the backing store, from a query to \<open>{data, error}\<close>: \<open>Inl\<close> the error's
    message, \<open>Inr\<close> the rows;
  \<^item> \<open>encryptData\<close>: the encryption module (not among the source files) on a string,
    \<open>None\<close> when its promise rejects; \<open>encryptData_any\<close>: the same function handed a
    value that is not a string, which the unchecked cast \<open>as string\<close> lets through;
  \<^item> \<open>json_stringify\<close>: \<open>JSON.stringify\<close>;
  \<^item> \<open>js_String\<close>: JavaScript's conversion to a string of a number, an array or an
    object (in a template literal or under \<open>+\<close>); on a value parsed from JSON it does
    not throw;
  \<^item> \<open>js_le\<close>: whether \<open>v <= n\<close> is true for a string or an array \<open>v\<close>;
  \<^item> \<open>round_percent\<close>: \<open>Math.round((a / b) * 100)\<close> in double arithmetic;
  \<^item> \<open>average_duration\<close>: \<open>Math.round((xs.reduce((sum, x) => sum + (x || 0), 0) || 0) / n)\<close>
    as \<open>JSON.stringify\<close> writes it (\<open>null\<close> when it is not a finite number), for the
    values \<open>xs\<close> of a column;
  \<^item> \<open>today_iso\<close>: \<open>toISOString()\<close> of today's local midnight.
  The conversions and the arithmetic on doubles are JavaScript's, not the proxy's: the
  model takes them as they are given.
\<close>

record env =
  getUser :: "string \<Rightarrow> string option"
  store :: "query \<Rightarrow> string + row list"
  encryptData :: "string \<Rightarrow> EncryptedPayload option"
  encryptData_any :: "json \<Rightarrow> EncryptedPayload option"
  json_stringify :: "json \<Rightarrow> string"
  js_String :: "json \<Rightarrow> string"
  js_le :: "json \<Rightarrow> int \<Rightarrow> bool"
  round_percent :: "int \<Rightarrow> int \<Rightarrow> int"
  average_duration :: "json option list \<Rightarrow> int \<Rightarrow> json"
  today_iso :: string

text \<open>A request: its method, its \<open>Authorization\<close> header and the decoded parameters of
  its URL. A response: its status and the JSON value its body serialises (the headers,
  the same on every response but for the content type, are left out).\<close>

record request =
  req_method :: string
  req_authorization :: "string option"
  req_params :: "(string \<times> string) list"

record response =
  resp_status :: nat
  resp_body :: "json option"

definition error_response :: "nat \<Rightarrow> string \<Rightarrow> response" where
  "error_response st msg = \<lparr>resp_status = st, resp_body = Some (JObj [(''error'', JStr msg)])\<rparr>"

definition ok_response :: "json \<Rightarrow> response" where
  "ok_response v = \<lparr>resp_status = 200, resp_body = Some v\<rparr>"

text \<open>\<open>if (p)\<close> for a parameter \<open>p\<close> of the URL: present and not empty.\<close>

fun given :: "string option \<Rightarrow> bool" where
  "given None = False"
| "given (Some s) = (s \<noteq> [])"

section \<open>The masking utilities on the values of a row\<close>

text \<open>
  The handlers read a column of a row and cast it: \<open>call.phone_number as string\<close>. The
  cast is unchecked, so at run time a masking utility receives whatever JSON value
  the column holds, or \<open>undefined\<close> (\<open>None\<close>) when the row has no such column. The
  functions below are the utilities run on such a value; the result \<open>None\<close> is a thrown
  error. On a string and on \<open>null\<close> they are the functions above.

  \<open>maskUuid\<close>: a falsy value gives the fixed mask. A truthy number, \<open>true\<close> and an
  object have no method \<open>slice\<close>: calling it throws. An array has one: its first 8
  elements are converted to a string and \<open>...\<close> is appended.
\<close>

definition maskUuid_value :: "env \<Rightarrow> json option \<Rightarrow> string option" where
  "maskUuid_value env uuid =
     (case uuid of
        None \<Rightarrow> Some (maskUuid None)
      | Some (JStr u) \<Rightarrow> Some (maskUuid (Some u))
      | Some (JArr xs) \<Rightarrow> Some (js_String env (JArr (take 8 xs)) @ ''...'')
      | Some v \<Rightarrow> if truthy v then None else Some (maskUuid None))"

text \<open>
  \<open>phone.length <= 4\<close> for an object \<open>phone\<close>, whose \<open>length\<close> is a property like any
  other: true of \<open>null\<close>, of a boolean and of a number at most 4, never of \<open>undefined\<close>
  or an object, and JavaScript's conversion decides for a string and an array.
\<close>

fun length_le4 :: "env \<Rightarrow> json option \<Rightarrow> bool" where
  "length_le4 env None = False"
| "length_le4 env (Some JNull) = True"
| "length_le4 env (Some (JBool b)) = True"
| "length_le4 env (Some (JNum n)) = (n \<le> 4)"
| "length_le4 env (Some (JStr s)) = js_le env (JStr s) 4"
| "length_le4 env (Some (JArr xs)) = js_le env (JArr xs) 4"
| "length_le4 env (Some v) = False"

text \<open>
  \<open>maskPhone\<close>: a falsy value gives the fixed mask. An array of at most 4 elements gives
  it too; a longer one gives the asterisks followed by its last 4 elements converted
  to a string. An object gives the fixed mask when its \<open>length\<close> is at most 4, and
  otherwise reaches \<open>phone.slice\<close>, which throws, as it does for a truthy number and
  for \<open>true\<close>.
\<close>

definition maskPhone_value :: "env \<Rightarrow> json option \<Rightarrow> string option" where
  "maskPhone_value env phone =
     (case phone of
        None \<Rightarrow> Some (maskPhone None)
      | Some (JStr p) \<Rightarrow> Some (maskPhone (Some p))
      | Some (JArr xs) \<Rightarrow>
          if length xs \<le> 4 then Some ''****''
          else Some (replicate (length xs - 4) CHR ''*''
                     @ js_String env (JArr (drop (length xs - 4) xs)))
      | Some (JObj kv) \<Rightarrow> if length_le4 env (map_of kv ''length'') then Some ''****'' else None
      | Some v \<Rightarrow> if truthy v then None else Some (maskPhone None))"

text \<open>\<open>maskSystemPrompt\<close> only tests its argument: the placeholder for a truthy value,
  \<open>null\<close> otherwise.\<close>

definition maskSystemPrompt_value :: "json option \<Rightarrow> json" where
  "maskSystemPrompt_value prompt =
     (if truthy_opt prompt then JStr ''[System prompt configured]'' else JNull)"

text \<open>The template literal \<open>`${callId}`\<close>: \<open>undefined\<close>, \<open>null\<close> and the booleans print as
  these words, a string as itself.\<close>

fun template_text :: "env \<Rightarrow> json option \<Rightarrow> string" where
  "template_text env None = ''undefined''"
| "template_text env (Some JNull) = ''null''"
| "template_text env (Some (JBool b)) = (if b then ''true'' else ''false'')"
| "template_text env (Some (JStr s)) = s"
| "template_text env (Some v) = js_String env v"

text \<open>\<open>proxyRecordingUrl\<close> only tests the URL: \<open>null\<close> for a falsy one, and otherwise the
  token, in which the id is printed.\<close>

definition proxyRecordingUrl_value :: "env \<Rightarrow> json option \<Rightarrow> json option \<Rightarrow> json" where
  "proxyRecordingUrl_value env url callId =
     (if truthy_opt url then JStr (''proxy:recording:'' @ template_text env callId)
      else JNull)"

text \<open>An object literal \<open>{...call, k1: v1, k2: v2}\<close>: the row's properties in their
  order, each later property overwriting in place or appended.\<close>

definition spread_with :: "row \<Rightarrow> (string \<times> json) list \<Rightarrow> row" where
  "spread_with call overrides = fold (\<lambda>(k, v) r. AList.update k v r) overrides call"

text \<open>\<open>{...v}\<close> for a JSON value \<open>v\<close>: the properties of an object; the elements of an
  array and the characters of a string under their indices \<open>0\<close>, \<open>1\<close>, ...; nothing for
  a number or a boolean.\<close>

fun decimal :: "nat \<Rightarrow> string" where
  "decimal n =
     (if n < 10 then [char_of (48 + n)]
      else decimal (n div 10) @ [char_of (48 + n mod 10)])"

fun spread_value :: "json \<Rightarrow> row" where
  "spread_value (JObj kv) = kv"
| "spread_value (JArr xs) = zip (map decimal [0..<length xs]) xs"
| "spread_value (JStr s) = zip (map decimal [0..<length s]) (map (\<lambda>c. JStr [c]) s)"
| "spread_value v = []"

fun opt_json :: "string option \<Rightarrow> json" where
  "opt_json None = JNull"
| "opt_json (Some s) = JStr s"

section \<open>Metadata sanitizer\<close>

definition copy_truthy :: "json \<Rightarrow> string \<Rightarrow> row \<Rightarrow> row" where
  "copy_truthy metadata k sanitized =
     (case js_prop metadata k of
        None \<Rightarrow> sanitized
      | Some v \<Rightarrow> if truthy v then AList.update k v sanitized else sanitized)"

definition copy_defined :: "json \<Rightarrow> string \<Rightarrow> row \<Rightarrow> row" where
  "copy_defined metadata k sanitized =
     (case js_prop metadata k of
        None \<Rightarrow> sanitized
      | Some v \<Rightarrow> AList.update k v sanitized)"

definition allowed_fields :: "json \<Rightarrow> row" where
  "allowed_fields metadata =
     (let s1 = copy_truthy metadata ''source'' [];
          s2 = copy_defined metadata ''is_retry'' s1;
          s3 = copy_truthy metadata ''lead_name'' s2;
          s4 = copy_truthy metadata ''campaign_id'' s3;
          s5 = copy_truthy metadata ''aitel_status'' s4;
          s6 = copy_truthy metadata ''error_message'' s5;
          s7 = copy_defined metadata ''retry_attempt'' s6
      in copy_defined metadata ''answered_by_voicemail'' s7)"

text \<open>The result is \<open>None\<close> when \<open>encryptData\<close> rejects, \<open>Some JNull\<close> for \<open>null\<close>.\<close>

definition sanitizeMetadata :: "env \<Rightarrow> json option \<Rightarrow> json option" where
  "sanitizeMetadata env metadata =
     (case metadata of
        None \<Rightarrow> Some JNull
      | Some m \<Rightarrow>
          if \<not> truthy m then Some JNull
          else
            let sanitized = allowed_fields m in
            (case js_prop m ''extracted_data'' of
               None \<Rightarrow> Some (JObj sanitized)
             | Some x \<Rightarrow>
                 if \<not> truthy x then Some (JObj sanitized)
                 else
                   let extractedStr = (case x of JStr s \<Rightarrow> s | _ \<Rightarrow> json_stringify env x)
                   in map_option
                        (\<lambda>p. JObj (AList.update ''extracted_data'' (JEnvelope p) sanitized))
                        (encryptData env extractedStr)))"

section \<open>The per-row transformations of the handlers\<close>

text \<open>\<open>call.transcript ? await encryptData(call.transcript as string) : null\<close>.\<close>

definition encrypt_field :: "env \<Rightarrow> json option \<Rightarrow> json option" where
  "encrypt_field env v =
     (case v of
        None \<Rightarrow> Some JNull
      | Some (JStr s) \<Rightarrow> if s = [] then Some JNull else map_option JEnvelope (encryptData env s)
      | Some x \<Rightarrow> if truthy x then map_option JEnvelope (encryptData_any env x) else Some JNull)"

text \<open>\<open>tasks?.find(t => t.id === call.task_id) || null\<close>; \<open>tasks\<close> is \<open>null\<close> when the
  fetch of the joined table failed.\<close>

definition find_by_id :: "row list option \<Rightarrow> json option \<Rightarrow> json" where
  "find_by_id joined ident =
     (case joined of
        None \<Rightarrow> JNull
      | Some rs \<Rightarrow>
          (case find (\<lambda>t. strict_eq (map_of t ''id'') ident) rs of
             None \<Rightarrow> JNull
           | Some t \<Rightarrow> JObj t))"

text \<open>The row of \<open>admin_demo_calls\<close>. The row of \<open>demo_calls\<close> is the same object
  literal with two more properties, the joined task and agent.\<close>

definition mask_admin_demo_call :: "env \<Rightarrow> row \<Rightarrow> row option" where
  "mask_admin_demo_call env call = do {
     phone \<leftarrow> maskPhone_value env (map_of call ''phone_number'');
     external \<leftarrow> maskUuid_value env (map_of call ''external_call_id'');
     transcript \<leftarrow> encrypt_field env (map_of call ''transcript'');
     Some (spread_with call
       [(''phone_number'', JStr phone),
        (''external_call_id'', JStr external),
        (''transcript'', transcript),
        (''recording_url'',
           proxyRecordingUrl_value env (map_of call ''recording_url'') (map_of call ''id'')),
        (''uploaded_audio_url'',
           proxyRecordingUrl_value env (map_of call ''uploaded_audio_url'') (map_of call ''id''))])
   }"

definition mask_demo_call :: "env \<Rightarrow> row list option \<Rightarrow> row list option \<Rightarrow> row \<Rightarrow> row option" where
  "mask_demo_call env tasks agents call = do {
     masked \<leftarrow> mask_admin_demo_call env call;
     Some (spread_with masked
       [(''tasks'', find_by_id tasks (map_of call ''task_id'')),
        (''aitel_agents'', find_by_id agents (map_of call ''agent_id''))])
   }"

text \<open>The row of \<open>active_calls\<close>. The row of \<open>calls\<close> is the same object literal with
  one more property, \<open>agent\<close>.\<close>

definition mask_active_call :: "env \<Rightarrow> row \<Rightarrow> row option" where
  "mask_active_call env call = do {
     lead \<leftarrow> maskUuid_value env (map_of call ''lead_id'');
     transcript \<leftarrow> encrypt_field env (map_of call ''transcript'');
     summary \<leftarrow> encrypt_field env (map_of call ''summary'');
     metadata \<leftarrow> sanitizeMetadata env (map_of call ''metadata'');
     Some (spread_with call
       [(''lead_id'', JStr lead),
        (''transcript'', transcript),
        (''summary'', summary),
        (''recording_url'',
           proxyRecordingUrl_value env (map_of call ''recording_url'') (map_of call ''id'')),
        (''metadata'', metadata)])
   }"

definition mask_call :: "env \<Rightarrow> row \<Rightarrow> row option" where
  "mask_call env call = do {
     masked \<leftarrow> mask_active_call env call;
     Some (spread_with masked [(''agent'', JObj [(''name'', JStr ''Agent'')])])
   }"

text \<open>The row of \<open>tasks\<close>: the joined agent, when it is truthy, spread and with its
  external id and its system prompts masked; \<open>null\<close> otherwise.\<close>

definition mask_agent :: "env \<Rightarrow> json \<Rightarrow> row option" where
  "mask_agent env agent = do {
     external \<leftarrow> maskUuid_value env (js_prop agent ''external_agent_id'');
     Some (spread_with (spread_value agent)
       [(''external_agent_id'', JStr external),
        (''current_system_prompt'', maskSystemPrompt_value (js_prop agent ''current_system_prompt'')),
        (''original_system_prompt'',
           maskSystemPrompt_value (js_prop agent ''original_system_prompt''))])
   }"

definition mask_task :: "env \<Rightarrow> row \<Rightarrow> row option" where
  "mask_task env task =
     (case map_of task ''aitel_agents'' of
        None \<Rightarrow> Some (spread_with task [(''aitel_agents'', JNull)])
      | Some agent \<Rightarrow>
          if truthy agent then
            map_option (\<lambda>a. spread_with task [(''aitel_agents'', JObj a)]) (mask_agent env agent)
          else Some (spread_with task [(''aitel_agents'', JNull)]))"

text \<open>\<open>JSON.stringify(maskedData)\<close> of the rows of \<open>Promise.all(data.map(...))\<close>: no
  response when a row's promise rejects.\<close>

definition rows_response :: "(row \<Rightarrow> row option) \<Rightarrow> row list \<Rightarrow> response option" where
  "rows_response f data =
     map_option (\<lambda>rows. ok_response (JArr (map JObj rows))) (those (map f data))"

section \<open>The queries\<close>

definition role_query :: "string \<Rightarrow> query" where
  "role_query userId =
     \<lparr>q_from = ''user_roles'', q_select = [''role''],
      q_filters = [FEq ''user_id'' userId], q_order = None, q_single = True\<rparr>"

definition demo_calls_query :: "json option \<Rightarrow> string option \<Rightarrow> query" where
  "demo_calls_query userRole engineerId =
     \<lparr>q_from = ''demo_calls'',
      q_select = [''id'', ''task_id'', ''agent_id'', ''engineer_id'', ''phone_number'',
        ''status'', ''duration_seconds'', ''started_at'', ''ended_at'', ''created_at'',
        ''updated_at'', ''external_call_id'', ''recording_url'', ''uploaded_audio_url'',
        ''transcript''],
      q_filters =
        (case engineerId of
           None \<Rightarrow> []
         | Some e \<Rightarrow>
             if userRole = Some (JStr ''engineer'') \<and> e \<noteq> [] then [FEq ''engineer_id'' e]
             else []),
      q_order = Some (''created_at'', False), q_single = False\<rparr>"

definition joined_query :: "string \<Rightarrow> string list \<Rightarrow> json option list \<Rightarrow> query" where
  "joined_query table columns ids =
     \<lparr>q_from = table, q_select = columns, q_filters = [FIn ''id'' ids],
      q_order = None, q_single = False\<rparr>"

definition admin_demo_calls_query :: query where
  "admin_demo_calls_query =
     \<lparr>q_from = ''demo_calls'', q_select = [''*''], q_filters = [],
      q_order = Some (''created_at'', False), q_single = False\<rparr>"

definition calls_query :: "string option \<Rightarrow> string option \<Rightarrow> string option \<Rightarrow> query" where
  "calls_query clientId startDate statusFilter =
     \<lparr>q_from = ''calls'',
      q_select = [''id'', ''agent_id'', ''client_id'', ''lead_id'', ''status'', ''connected'',
        ''duration_seconds'', ''started_at'', ''ended_at'', ''created_at'', ''sentiment'',
        ''summary'', ''transcript'', ''recording_url'', ''external_call_id'', ''metadata''],
      q_filters =
        (case startDate of Some d \<Rightarrow> if d \<noteq> [] then [FGte ''created_at'' d] else [] | None \<Rightarrow> [])
        @ (case clientId of Some c \<Rightarrow> if c \<noteq> [] then [FEq ''client_id'' c] else [] | None \<Rightarrow> [])
        @ (case statusFilter of
             Some st \<Rightarrow> if st \<noteq> [] \<and> st \<noteq> ''all'' then [FEq ''status'' st] else []
           | None \<Rightarrow> []),
      q_order = Some (''created_at'', False), q_single = False\<rparr>"

definition active_calls_query :: query where
  "active_calls_query =
     \<lparr>q_from = ''calls'', q_select = [''*''],
      q_filters = [FIn ''status'' [Some (JStr ''initiated''), Some (JStr ''in_progress'')]],
      q_order = Some (''created_at'', False), q_single = False\<rparr>"

definition today_stats_query :: "env \<Rightarrow> query" where
  "today_stats_query env =
     \<lparr>q_from = ''calls'', q_select = [''status'', ''connected'', ''duration_seconds''],
      q_filters = [FGte ''created_at'' (today_iso env)], q_order = None, q_single = False\<rparr>"

definition tasks_query :: "string option \<Rightarrow> string option \<Rightarrow> query" where
  "tasks_query assignedTo statusParam =
     \<lparr>q_from = ''tasks'',
      q_select = [''*'', ''aitel_agents(agent_name, external_agent_id)''],
      q_filters =
        (case assignedTo of Some a \<Rightarrow> if a \<noteq> [] then [FEq ''assigned_to'' a] else [] | None \<Rightarrow> [])
        @ (case statusParam of Some st \<Rightarrow> if st \<noteq> [] then [FEq ''status'' st] else [] | None \<Rightarrow> []),
      q_order = Some (''created_at'', False), q_single = False\<rparr>"

section \<open>The handlers\<close>

text \<open>
  A handler returns its response, \<open>None\<close> when an error was thrown on the way, and
  the queries it sent to the backing store, in order.
\<close>

text \<open>\<open>const { data: tasks } = await supabase.from(...)...\<close>: the rows of a joined table,
  \<open>null\<close> (\<open>None\<close>) when the fetch fails; its error is not read.\<close>

definition joined_rows :: "env \<Rightarrow> query \<Rightarrow> row list option" where
  "joined_rows env q = (case store env q of Inl e \<Rightarrow> None | Inr rs \<Rightarrow> Some rs)"

definition tasks_join_query :: "row list \<Rightarrow> query" where
  "tasks_join_query demoCalls =
     joined_query ''tasks'' [''id'', ''title'', ''selected_demo_call_id'', ''assigned_to'']
       (js_set (map (\<lambda>c. map_of c ''task_id'') demoCalls))"

definition agents_join_query :: "row list \<Rightarrow> query" where
  "agents_join_query demoCalls =
     joined_query ''aitel_agents'' [''id'', ''agent_name'']
       (js_set (map (\<lambda>c. map_of c ''agent_id'') demoCalls))"

definition handle_demo_calls ::
    "env \<Rightarrow> json option \<Rightarrow> (string \<times> string) list \<Rightarrow> response option \<times> query list" where
  "handle_demo_calls env userRole params =
     (let query = demo_calls_query userRole (map_of params ''engineer_id'') in
      case store env query of
        Inl message \<Rightarrow> (Some (error_response 500 message), [query])
      | Inr demoCalls \<Rightarrow>
          let tasks = joined_rows env (tasks_join_query demoCalls);
              agents = joined_rows env (agents_join_query demoCalls)
          in (rows_response (mask_demo_call env tasks agents) demoCalls,
              [query, tasks_join_query demoCalls, agents_join_query demoCalls]))"

definition forbidden :: "response option \<times> query list" where
  "forbidden = (Some (error_response 403 ''Forbidden''), [])"

definition handle_admin_demo_calls :: "env \<Rightarrow> json option \<Rightarrow> response option \<times> query list" where
  "handle_admin_demo_calls env userRole =
     (if userRole \<noteq> Some (JStr ''admin'') then forbidden
      else
        case store env admin_demo_calls_query of
          Inl message \<Rightarrow> (Some (error_response 500 message), [admin_demo_calls_query])
        | Inr data \<Rightarrow> (rows_response (mask_admin_demo_call env) data, [admin_demo_calls_query]))"

definition handle_calls ::
    "env \<Rightarrow> (string \<times> string) list \<Rightarrow> response option \<times> query list" where
  "handle_calls env params =
     (let query = calls_query (map_of params ''client_id'') (map_of params ''start_date'')
                    (map_of params ''status'') in
      case store env query of
        Inl message \<Rightarrow> (Some (error_response 500 message), [query])
      | Inr data \<Rightarrow> (rows_response (mask_call env) data, [query]))"

definition handle_active_calls :: "env \<Rightarrow> json option \<Rightarrow> response option \<times> query list" where
  "handle_active_calls env userRole =
     (if userRole \<noteq> Some (JStr ''admin'') then forbidden
      else
        case store env active_calls_query of
          Inl message \<Rightarrow> (Some (error_response 500 message), [active_calls_query])
        | Inr data \<Rightarrow> (rows_response (mask_active_call env) data, [active_calls_query]))"

definition count_where :: "(row \<Rightarrow> bool) \<Rightarrow> row list \<Rightarrow> int" where
  "count_where P rows = int (length (filter P rows))"

text \<open>
  The counts of \<open>today_stats\<close> are lengths of arrays, exact integers. The two rates
  are computed in double arithmetic, which the environment gives. \<open>c.connected\<close> is
  tested for truthiness, \<open>c.status\<close> compared with \<open>===\<close> and \<open>includes\<close>.
\<close>

definition today_stats_body :: "env \<Rightarrow> row list \<Rightarrow> json" where
  "today_stats_body env todayCalls =
     (let total = int (length todayCalls);
          completed = count_where (\<lambda>c. map_of c ''status'' = Some (JStr ''completed'')) todayCalls;
          connected = count_where (\<lambda>c. truthy_opt (map_of c ''connected'')) todayCalls;
          failed = count_where (\<lambda>c. map_of c ''status'' = Some (JStr ''failed'')) todayCalls;
          inProgress = count_where (\<lambda>c. map_of c ''status'' = Some (JStr ''initiated'')
                          \<or> map_of c ''status'' = Some (JStr ''in_progress'')) todayCalls
      in JObj
       [(''total'', JNum total),
        (''completed'', JNum completed),
        (''connected'', JNum connected),
        (''failed'', JNum failed),
        (''inProgress'', JNum inProgress),
        (''connectionRate'',
           JNum (if total > 0 then round_percent env connected total else 0)),
        (''avgDuration'',
           if total > 0 then
             average_duration env (map (\<lambda>c. map_of c ''duration_seconds'') todayCalls) total
           else JNum 0)])"

definition handle_today_stats :: "env \<Rightarrow> json option \<Rightarrow> response option \<times> query list" where
  "handle_today_stats env userRole =
     (if userRole \<noteq> Some (JStr ''admin'') then forbidden
      else
        case store env (today_stats_query env) of
          Inl message \<Rightarrow> (Some (error_response 500 message), [today_stats_query env])
        | Inr todayCalls \<Rightarrow>
            (Some (ok_response (today_stats_body env todayCalls)), [today_stats_query env]))"

definition handle_tasks ::
    "env \<Rightarrow> (string \<times> string) list \<Rightarrow> response option \<times> query list" where
  "handle_tasks env params =
     (let query = tasks_query (map_of params ''assigned_to'') (map_of params ''status'') in
      case store env query of
        Inl message \<Rightarrow> (Some (error_response 500 message), [query])
      | Inr data \<Rightarrow> (rows_response (mask_task env) data, [query]))"

text \<open>The chain of \<open>if (action === ...)\<close>, and the response when none applies.\<close>

definition dispatch ::
    "env \<Rightarrow> json option \<Rightarrow> (string \<times> string) list \<Rightarrow> response option \<times> query list" where
  "dispatch env userRole params =
     (let action = map_of params ''action'' in
      if action = Some ''demo_calls'' then handle_demo_calls env userRole params
      else if action = Some ''admin_demo_calls'' then handle_admin_demo_calls env userRole
      else if action = Some ''calls'' then handle_calls env params
      else if action = Some ''active_calls'' then handle_active_calls env userRole
      else if action = Some ''today_stats'' then handle_today_stats env userRole
      else if action = Some ''tasks'' then handle_tasks env params
      else (Some (error_response 400 ''Invalid action''), []))"

text \<open>\<open>authHeader?.startsWith("Bearer ")\<close>.\<close>

fun has_bearer :: "string option \<Rightarrow> bool" where
  "has_bearer None = False"
| "has_bearer (Some h) = (take 7 h = ''Bearer '')"

text \<open>\<open>roleData?.role\<close> after \<open>.single()\<close>: the role of the one row found; \<open>undefined\<close>
  when the lookup fails or finds no row or several.\<close>

definition lookup_role :: "env \<Rightarrow> string \<Rightarrow> json option" where
  "lookup_role env userId =
     (case store env (role_query userId) of
        Inr [roleData] \<Rightarrow> map_of roleData ''role''
      | _ \<Rightarrow> None)"

text \<open>
  The request handler: the response, and the queries sent to the backing store while
  it was computed. An error thrown after the authorization check is caught and
  answered with the generic body.
\<close>

definition unauthorized :: "response \<times> query list" where
  "unauthorized = (error_response 401 ''Unauthorized'', [])"

definition serve :: "env \<Rightarrow> request \<Rightarrow> response \<times> query list" where
  "serve env req =
     (if req_method req = ''OPTIONS'' then (\<lparr>resp_status = 200, resp_body = None\<rparr>, [])
      else
        case req_authorization req of
          None \<Rightarrow> unauthorized
        | Some authHeader \<Rightarrow>
            if take 7 authHeader \<noteq> ''Bearer '' then unauthorized
            else
              case getUser env authHeader of
                None \<Rightarrow> (error_response 401 ''Invalid token'', [])
              | Some userId \<Rightarrow>
                  let userRole = lookup_role env userId;
                      (result, queries) = dispatch env userRole (req_params req)
                  in (case result of
                        Some resp \<Rightarrow> resp
                      | None \<Rightarrow> error_response 500 ''Internal server error'',
                      role_query userId # queries))"

section \<open>A backing store in memory\<close>

text \<open>
  A stand-in for the backing store, to evaluate \<open>serve\<close> on concrete tables: a query
  on a table that does not exist fails; otherwise the rows that pass every filter are
  returned, in the table's order (the tables below are written in the order asked
  for, and with the columns selected).
\<close>

fun str_le :: "string \<Rightarrow> string \<Rightarrow> bool" where
  "str_le [] ys = True"
| "str_le (x # xs) [] = False"
| "str_le (x # xs) (y # ys) =
     ((of_char x :: nat) < of_char y \<or> (x = y \<and> str_le xs ys))"

fun row_matches :: "row \<Rightarrow> query_filter \<Rightarrow> bool" where
  "row_matches r (FEq c v) = (map_of r c = Some (JStr v))"
| "row_matches r (FGte c v) = (case map_of r c of Some (JStr s) \<Rightarrow> str_le v s | _ \<Rightarrow> False)"
| "row_matches r (FIn c vs) = list_ex (strict_eq (map_of r c)) vs"

definition memory_store :: "(string \<times> row list) list \<Rightarrow> query \<Rightarrow> string + row list" where
  "memory_store db q =
     (case map_of db (q_from q) of
        None \<Rightarrow> Inl (''relation '' @ q_from q @ '' does not exist'')
      | Some rows \<Rightarrow> Inr (filter (\<lambda>r. list_all (row_matches r) (q_filters q)) rows))"

text \<open>An identity service that knows one token and answers with the given user, and an
  encryption that wraps the reversed plaintext in an envelope. The other functions
  of JavaScript are stand-ins that agree with it on the values of the examples:
  \<open>JSON.stringify\<close> and the comparison of a string with a number are never called
  there (the \<open>extracted_data\<close> of the examples are strings), a number is written in
  decimal digits and an array as its elements joined by commas (\<open>null\<close> as the
  empty string there), the rate is rounded from the exact quotient and the
  durations, all numbers or \<open>null\<close>, are summed exactly. Encrypting a value that is not a string
  rejects.\<close>

definition seal :: "string \<Rightarrow> EncryptedPayload option" where
  "seal s = Some (EncryptedPayload ''AES-256-GCM'' ''iv'' ''tag'' (rev s))"

fun join_comma :: "string list \<Rightarrow> string" where
  "join_comma [] = []"
| "join_comma [x] = x"
| "join_comma (x # y # ys) = x @ '','' @ join_comma (y # ys)"

fun show_value :: "json \<Rightarrow> string" where
  "show_value JNull = []"
| "show_value (JBool b) = (if b then ''true'' else ''false'')"
| "show_value (JNum n) = (if n < 0 then CHR ''-'' # decimal (nat (- n)) else decimal (nat n))"
| "show_value (JStr s) = s"
| "show_value (JArr xs) = join_comma (map show_value xs)"
| "show_value v = ''[object Object]''"

fun duration_of :: "json option \<Rightarrow> int" where
  "duration_of (Some (JNum n)) = n"
| "duration_of v = 0"

definition memory_env :: "string \<Rightarrow> (string \<times> row list) list \<Rightarrow> env" where
  "memory_env userId db =
     \<lparr>getUser = (\<lambda>h. if h = ''Bearer t0'' then Some userId else None),
      store = memory_store db,
      encryptData = seal,
      encryptData_any = (\<lambda>v. None),
      json_stringify = (\<lambda>v. ''{}''),
      js_String = show_value,
      js_le = (\<lambda>v n. False),
      round_percent = (\<lambda>a b. (200 * a + b) div (2 * b)),
      average_duration = (\<lambda>xs n. JNum ((2 * sum_list (map duration_of xs) + n) div (2 * n))),
      today_iso = ''2026-01-01T00:00:00.000Z''\<rparr>"

definition get_request :: "(string \<times> string) list \<Rightarrow> request" where
  "get_request params =
     \<lparr>req_method = ''GET'', req_authorization = Some ''Bearer t0'', req_params = params\<rparr>"

text \<open>The tables the examples below are evaluated on.\<close>

definition sample_db :: "(string \<times> row list) list" where
  "sample_db =
     [(''user_roles'',
        [[(''user_id'', JStr ''eng-1''), (''role'', JStr ''engineer'')],
         [(''user_id'', JStr ''adm-1''), (''role'', JStr ''admin'')]]),
      (''demo_calls'',
        [[(''id'', JStr ''d2''), (''task_id'', JStr ''t1''), (''agent_id'', JStr ''a1''),
          (''engineer_id'', JStr ''eng-2''), (''phone_number'', JStr ''9876543210''),
          (''created_at'', JStr ''2026-01-03T09:00:00.000Z''),
          (''transcript'', JStr ''Agent: hello'')],
         [(''id'', JStr ''d1''), (''task_id'', JStr ''t1''), (''agent_id'', JStr ''a1''),
          (''engineer_id'', JStr ''eng-1''), (''phone_number'', JStr ''12''),
          (''created_at'', JStr ''2026-01-02T09:00:00.000Z''),
          (''transcript'', JNull)]]),
      (''tasks'',
        [[(''id'', JStr ''t1''), (''title'', JStr ''Demo''), (''assigned_to'', JStr ''eng-1''),
          (''aitel_agents'', JObj [(''agent_name'', JStr ''Asha''),
             (''external_agent_id'', JStr ''0123456789abcdef'')])]]),
      (''aitel_agents'', [[(''id'', JStr ''a1''), (''agent_name'', JStr ''Asha'')]]),
      (''calls'',
        [[(''id'', JStr ''c2''), (''client_id'', JStr ''C2''),
          (''lead_id'', JStr ''0123456789abcdef''), (''status'', JStr ''in_progress''),
          (''connected'', JBool False), (''duration_seconds'', JNull),
          (''created_at'', JStr ''2026-01-03T10:00:00.000Z''),
          (''summary'', JNull), (''transcript'', JStr ''''),
          (''recording_url'', JStr ''https://store.example/r2.mp3''),
          (''metadata'', JNull)],
         [(''id'', JStr ''c1''), (''client_id'', JStr ''C1''), (''lead_id'', JStr ''L1''),
          (''status'', JStr ''completed''), (''connected'', JBool True),
          (''duration_seconds'', JNum 42),
          (''created_at'', JStr ''2026-01-02T10:00:00.000Z''),
          (''summary'', JStr ''wants a callback''), (''transcript'', JStr ''hello''),
          (''recording_url'', JStr ''https://store.example/r.mp3''),
          (''metadata'', JObj [(''source'', JStr ''fb''), (''secret_token'', JStr ''xyz''),
             (''lead_name'', JStr ''Jane''), (''extracted_data'', JStr ''budget'')])]])]"

text \<open>A store that has lost every table but the roles.\<close>

definition roles_only_db :: "(string \<times> row list) list" where
  "roles_only_db =
     [(''user_roles'', [[(''user_id'', JStr ''adm-1''), (''role'', JStr ''admin'')]])]"


text \<open>A column of the rows of a response.\<close>

definition body_column :: "response \<Rightarrow> string \<Rightarrow> json option list" where
  "body_column resp k =
     (case resp_body resp of
        Some (JArr rows) \<Rightarrow> map (\<lambda>r. js_prop r k) rows
      | _ \<Rightarrow> [])"

text \<open>A column of the rows the store returns for a query.\<close>

definition stored_column :: "env \<Rightarrow> query \<Rightarrow> string \<Rightarrow> json option list" where
  "stored_column env q k =
     (case store env q of
        Inr data \<Rightarrow> map (\<lambda>c. map_of c k) data
      | Inl e \<Rightarrow> [])"

section \<open>Notions the properties are stated with\<close>

text \<open>A request that passes the gate as the user \<open>userId\<close>.\<close>

definition authenticated :: "env \<Rightarrow> request \<Rightarrow> string \<Rightarrow> bool" where
  "authenticated env req userId =
     (req_method req \<noteq> ''OPTIONS'' \<and>
      (case req_authorization req of
         None \<Rightarrow> False
       | Some h \<Rightarrow> take 7 h = ''Bearer '' \<and> getUser env h = Some userId))"

definition supported_actions :: "string list" where
  "supported_actions =
     [''demo_calls'', ''admin_demo_calls'', ''calls'', ''active_calls'', ''today_stats'', ''tasks'']"

definition admin_only :: "string list" where
  "admin_only = [''admin_demo_calls'', ''active_calls'', ''today_stats'']"

definition open_actions :: "string list" where
  "open_actions = [''calls'', ''demo_calls'', ''tasks'']"

text \<open>The query for the rows of the requested action: the first query its handler
  sends, when the handler admits the role.\<close>

definition primary_query :: "env \<Rightarrow> json option \<Rightarrow> (string \<times> string) list \<Rightarrow> query option" where
  "primary_query env userRole params =
     (let action = map_of params ''action'' in
      if action = Some ''demo_calls'' then
        Some (demo_calls_query userRole (map_of params ''engineer_id''))
      else if action = Some ''admin_demo_calls'' then
        (if userRole = Some (JStr ''admin'') then Some admin_demo_calls_query else None)
      else if action = Some ''calls'' then
        Some (calls_query (map_of params ''client_id'') (map_of params ''start_date'')
                (map_of params ''status''))
      else if action = Some ''active_calls'' then
        (if userRole = Some (JStr ''admin'') then Some active_calls_query else None)
      else if action = Some ''today_stats'' then
        (if userRole = Some (JStr ''admin'') then Some (today_stats_query env) else None)
      else if action = Some ''tasks'' then
        Some (tasks_query (map_of params ''assigned_to'') (map_of params ''status''))
      else None)"

text \<open>The keys the sanitizer copies: five when their value is truthy, three whenever
  they are present.\<close>

definition copied_if_truthy :: "string list" where
  "copied_if_truthy =
     [''source'', ''lead_name'', ''campaign_id'', ''aitel_status'', ''error_message'']"

definition copied_if_present :: "string list" where
  "copied_if_present = [''is_retry'', ''retry_attempt'', ''answered_by_voicemail'']"

definition allow_list :: "string list" where
  "allow_list = [''source'', ''is_retry'', ''lead_name'', ''campaign_id'', ''aitel_status'',
     ''error_message'', ''retry_attempt'', ''answered_by_voicemail'']"

text \<open>An envelope \<open>encryptData\<close> returned.\<close>

definition envelope_of :: "env \<Rightarrow> json \<Rightarrow> bool" where
  "envelope_of env v \<longleftrightarrow> (\<exists>s p. encryptData env s = Some p \<and> v = JEnvelope p)"

text \<open>The transformation the handler of an open action applies to each of the rows
  \<open>data\<close> it fetched: for \<open>demo_calls\<close> with the rows of the two joined tables, as
  fetched for these rows.\<close>

definition open_row_mask :: "env \<Rightarrow> string \<Rightarrow> row list \<Rightarrow> row \<Rightarrow> row option" where
  "open_row_mask env action data =
     (if action = ''calls'' then mask_call env
      else if action = ''tasks'' then mask_task env
      else mask_demo_call env (joined_rows env (tasks_join_query data))
             (joined_rows env (agents_join_query data)))"

section \<open>Properties of the masking utilities\<close>

text \<open>
  C7. \<open>maskPhone\<close> is a total function of its argument alone. For an absent phone and
  for one of length at most 4 it returns the fixed mask \<open>****\<close>; for a longer one of
  length \<open>n\<close> it returns \<open>n - 4\<close> asterisks followed by the last four characters. So
  \<open>maskPhone("9876543210") = "******3210"\<close>, \<open>maskPhone(null) = "****"\<close> and
  \<open>maskPhone("12") = "****"\<close>.
\<close>

theorem maskPhone_spec:
  "maskPhone None = ''****''
   \<and> (length p \<le> 4 \<longrightarrow> maskPhone (Some p) = ''****'')
   \<and> (4 < length p \<longrightarrow>
        maskPhone (Some p) = replicate (length p - 4) CHR ''*'' @ drop (length p - 4) p
        \<and> length (maskPhone (Some p)) = length p
        \<and> drop (length p - 4) (maskPhone (Some p)) = drop (length p - 4) p
        \<and> length (drop (length p - 4) p) = 4)
   \<and> maskPhone (Some ''9876543210'') = ''******3210''
   \<and> maskPhone (Some ''12'') = ''****''"
  by (auto simp: maskPhone_def)

theorem maskPhone_spec_witness:
  "4 < length ''9876543210''
   \<and> maskPhone (Some ''9876543210'') = ''******'' @ ''3210''
   \<and> length ''123'' \<le> 4 \<and> maskPhone (Some ''123'') = ''****''"
  using maskPhone_spec [of "''9876543210''"] maskPhone_spec [of "''123''"]
  by simp

section \<open>Auxiliary facts\<close>

lemma map_of_spread_with:
  "map_of (spread_with call ovs) k =
     (case map_of (rev ovs) k of Some v \<Rightarrow> Some v | None \<Rightarrow> map_of call k)"
proof (induction ovs arbitrary: call)
  case Nil
  show ?case by (simp add: spread_with_def)
next
  case (Cons x ovs)
  obtain k' v' where x: "x = (k', v')" by (cases x)
  have step: "spread_with call (x # ovs) = spread_with (AList.update k' v' call) ovs"
    by (simp add: spread_with_def x)
  show ?case
    unfolding step Cons.IH
    by (simp add: x AList.update_conv' map_add_def split: option.splits)
qed

lemma those_map_Some:
  "those (map f xs) = Some ys \<Longrightarrow> list_all2 (\<lambda>x y. f x = Some y) xs ys"
proof (induction xs arbitrary: ys)
  case Nil
  then show ?case by simp
next
  case (Cons x xs)
  then show ?case by (auto split: option.splits)
qed

lemma error_response_status [simp]: "resp_status (error_response st msg) = st"
  by (simp add: error_response_def)

lemma ok_response_simps [simp]:
  "resp_status (ok_response v) = 200" "resp_body (ok_response v) = Some v"
  by (simp_all add: ok_response_def)

lemma rows_response_Some:
  "rows_response f data = Some resp \<Longrightarrow>
   \<exists>rows. resp = ok_response (JArr (map JObj rows)) \<and> list_all2 (\<lambda>c r. f c = Some r) data rows"
  by (auto simp: rows_response_def dest: those_map_Some)

text \<open>What \<open>serve\<close> does once the gate is passed.\<close>

lemma serve_authenticated:
  "authenticated env req userId \<Longrightarrow>
   serve env req =
     (case fst (dispatch env (lookup_role env userId) (req_params req)) of
        Some resp \<Rightarrow> resp
      | None \<Rightarrow> error_response 500 ''Internal server error'',
      role_query userId # snd (dispatch env (lookup_role env userId) (req_params req)))"
  by (auto simp: authenticated_def serve_def Let_def split: option.splits prod.splits)

section \<open>The access-control gate\<close>

text \<open>
  C4. A request that is not \<open>OPTIONS\<close> and has no \<open>Authorization\<close> header beginning
  with \<open>Bearer \<close> is answered 401 with the body \<open>{"error":"Unauthorized"}\<close>, and no
  query at all is sent to the backing store for it.
\<close>

theorem unauthorized_without_bearer:
  "req_method req \<noteq> ''OPTIONS'' \<Longrightarrow> \<not> has_bearer (req_authorization req) \<Longrightarrow>
   serve env req =
     (\<lparr>resp_status = 401, resp_body = Some (JObj [(''error'', JStr ''Unauthorized'')])\<rparr>, [])"
  by (cases "req_authorization req") (simp_all add: serve_def unauthorized_def error_response_def)

theorem unauthorized_without_bearer_witness:
  "serve (memory_env ''adm-1'' sample_db)
     \<lparr>req_method = ''GET'', req_authorization = Some ''Basic dXNlcg=='',
      req_params = [(''action'', ''calls'')]\<rparr>
   = (\<lparr>resp_status = 401, resp_body = Some (JObj [(''error'', JStr ''Unauthorized'')])\<rparr>, [])
   \<and> serve (memory_env ''adm-1'' sample_db)
     \<lparr>req_method = ''POST'', req_authorization = None, req_params = [(''action'', ''tasks'')]\<rparr>
   = (\<lparr>resp_status = 401, resp_body = Some (JObj [(''error'', JStr ''Unauthorized'')])\<rparr>, [])"
  using unauthorized_without_bearer
      [of "\<lparr>req_method = ''GET'', req_authorization = Some ''Basic dXNlcg=='',
            req_params = [(''action'', ''calls'')]\<rparr>" "memory_env ''adm-1'' sample_db"]
    unauthorized_without_bearer
      [of "\<lparr>req_method = ''POST'', req_authorization = None,
            req_params = [(''action'', ''tasks'')]\<rparr>" "memory_env ''adm-1'' sample_db"]
  by simp

text \<open>
  C5. For an authenticated request whose resolved role is not \<open>admin\<close> (a principal
  with no role record included: its role is \<open>undefined\<close>), each of the actions
  \<open>admin_demo_calls\<close>, \<open>active_calls\<close> and \<open>today_stats\<close> is answered 403 with the
  body \<open>{"error":"Forbidden"}\<close>; the only query sent is the lookup of the role, so no
  row of the action is fetched.
\<close>

theorem admin_actions_forbidden:
  assumes "authenticated env req userId"
    and "lookup_role env userId \<noteq> Some (JStr ''admin'')"
    and "map_of (req_params req) ''action'' = Some a"
    and "a \<in> set admin_only"
  shows "serve env req =
     (\<lparr>resp_status = 403, resp_body = Some (JObj [(''error'', JStr ''Forbidden'')])\<rparr>,
      [role_query userId])"
  using assms(2-4)
  unfolding serve_authenticated [OF assms(1)]
  by (auto simp: admin_only_def dispatch_def handle_admin_demo_calls_def handle_active_calls_def
      handle_today_stats_def forbidden_def error_response_def)

theorem admin_actions_forbidden_witness:
  "lookup_role (memory_env ''eng-1'' sample_db) ''eng-1'' = Some (JStr ''engineer'')
   \<and> serve (memory_env ''eng-1'' sample_db) (get_request [(''action'', ''active_calls'')])
     = (\<lparr>resp_status = 403, resp_body = Some (JObj [(''error'', JStr ''Forbidden'')])\<rparr>,
        [role_query ''eng-1''])
   \<and> lookup_role (memory_env ''ghost'' sample_db) ''ghost'' = None
   \<and> serve (memory_env ''ghost'' sample_db) (get_request [(''action'', ''today_stats'')])
     = (\<lparr>resp_status = 403, resp_body = Some (JObj [(''error'', JStr ''Forbidden'')])\<rparr>,
        [role_query ''ghost''])"
  using admin_actions_forbidden [of "memory_env ''eng-1'' sample_db"
      "get_request [(''action'', ''active_calls'')]" "''eng-1''" "''active_calls''"]
    admin_actions_forbidden [of "memory_env ''ghost'' sample_db"
      "get_request [(''action'', ''today_stats'')]" "''ghost''" "''today_stats''"]
  by (simp add: authenticated_def memory_env_def get_request_def lookup_role_def role_query_def
      memory_store_def sample_db_def admin_only_def)

text \<open>
  C9. For an authenticated request whose \<open>action\<close> parameter is missing or is none of
  \<open>demo_calls\<close>, \<open>admin_demo_calls\<close>, \<open>calls\<close>, \<open>active_calls\<close>, \<open>today_stats\<close>,
  \<open>tasks\<close>, the response is 400 with the body \<open>{"error":"Invalid action"}\<close>: no
  handler is a default.
\<close>

theorem invalid_action_400:
  assumes "authenticated env req userId"
    and "\<forall>a \<in> set supported_actions. map_of (req_params req) ''action'' \<noteq> Some a"
  shows "serve env req =
     (\<lparr>resp_status = 400, resp_body = Some (JObj [(''error'', JStr ''Invalid action'')])\<rparr>,
      [role_query userId])"
  using assms(2)
  unfolding serve_authenticated [OF assms(1)]
  by (simp add: supported_actions_def dispatch_def error_response_def)

theorem invalid_action_400_witness:
  "serve (memory_env ''adm-1'' sample_db) (get_request [(''action'', ''nonexistent'')])
     = (\<lparr>resp_status = 400, resp_body = Some (JObj [(''error'', JStr ''Invalid action'')])\<rparr>,
        [role_query ''adm-1''])
   \<and> serve (memory_env ''adm-1'' sample_db) (get_request [(''client_id'', ''C1'')])
     = (\<lparr>resp_status = 400, resp_body = Some (JObj [(''error'', JStr ''Invalid action'')])\<rparr>,
        [role_query ''adm-1''])"
  using invalid_action_400 [of "memory_env ''adm-1'' sample_db"
      "get_request [(''action'', ''nonexistent'')]" "''adm-1''"]
    invalid_action_400 [of "memory_env ''adm-1'' sample_db"
      "get_request [(''client_id'', ''C1'')]" "''adm-1''"]
  by (simp add: authenticated_def memory_env_def get_request_def supported_actions_def)

section \<open>The metadata sanitizer\<close>

lemma map_of_copy_truthy:
  "map_of (copy_truthy m k' s) k =
     (if k = k' \<and> truthy_opt (js_prop m k') then js_prop m k' else map_of s k)"
  by (auto simp: copy_truthy_def AList.update_conv' split: option.splits)

lemma map_of_copy_defined:
  "map_of (copy_defined m k' s) k =
     (if k = k' \<and> js_prop m k' \<noteq> None then js_prop m k' else map_of s k)"
  by (auto simp: copy_defined_def AList.update_conv' split: option.splits)

lemma map_of_allowed_fields:
  "map_of (allowed_fields m) k =
     (if k \<in> set copied_if_truthy then (if truthy_opt (js_prop m k) then js_prop m k else None)
      else if k \<in> set copied_if_present then js_prop m k
      else None)"
  unfolding allowed_fields_def Let_def map_of_copy_truthy map_of_copy_defined
  by (auto simp: copied_if_truthy_def copied_if_present_def)

text \<open>
  C6, as the code has it. \<open>sanitizeMetadata\<close> returns \<open>null\<close> for \<open>null\<close>. For a
  metadata object it fails only when the encryption of a truthy \<open>extracted_data\<close>
  fails; otherwise it returns an object in which
  \<^item> \<open>source\<close>, \<open>lead_name\<close>, \<open>campaign_id\<close>, \<open>aitel_status\<close> and \<open>error_message\<close>
    are present exactly when the input has them with a truthy value (not \<open>null\<close>,
    \<open>false\<close>, \<open>0\<close> or the empty string), with that value;
  \<^item> \<open>is_retry\<close>, \<open>retry_attempt\<close> and \<open>answered_by_voicemail\<close> are present exactly
    when the input has them, with the input's value;
  \<^item> \<open>extracted_data\<close> is present exactly when the input's is truthy, and holds the
    envelope of that value (a string as it is, any other value serialized);
  \<^item> every other key is absent.
\<close>

theorem sanitizeMetadata_allow_list:
  "sanitizeMetadata env (Some JNull) = Some JNull
   \<and> (sanitizeMetadata env (Some (JObj kv)) = None \<longleftrightarrow>
        (\<exists>x. map_of kv ''extracted_data'' = Some x \<and> truthy x
           \<and> encryptData env (case x of JStr s \<Rightarrow> s | _ \<Rightarrow> json_stringify env x) = None))
   \<and> (\<forall>result. sanitizeMetadata env (Some (JObj kv)) = Some result \<longrightarrow>
        (\<exists>out. result = JObj out \<and>
           (\<forall>k. map_of out k =
              (if k \<in> set copied_if_truthy then
                 (case map_of kv k of Some v \<Rightarrow> if truthy v then Some v else None | None \<Rightarrow> None)
               else if k \<in> set copied_if_present then map_of kv k
               else if k = ''extracted_data'' then
                 (case map_of kv k of
                    Some x \<Rightarrow>
                      if truthy x then
                        map_option JEnvelope
                          (encryptData env (case x of JStr s \<Rightarrow> s | _ \<Rightarrow> json_stringify env x))
                      else None
                  | None \<Rightarrow> None)
               else None))))"
proof (intro conjI allI impI)
  show "sanitizeMetadata env (Some JNull) = Some JNull"
    by (simp add: sanitizeMetadata_def)
next
  show "sanitizeMetadata env (Some (JObj kv)) = None \<longleftrightarrow>
        (\<exists>x. map_of kv ''extracted_data'' = Some x \<and> truthy x
           \<and> encryptData env (case x of JStr s \<Rightarrow> s | _ \<Rightarrow> json_stringify env x) = None)"
    by (auto simp: sanitizeMetadata_def Let_def split: option.splits)
next
  fix result
  assume r: "sanitizeMetadata env (Some (JObj kv)) = Some result"
  have ex: "''extracted_data'' \<notin> set copied_if_truthy" "''extracted_data'' \<notin> set copied_if_present"
    by (simp_all add: copied_if_truthy_def copied_if_present_def)
  show "\<exists>out. result = JObj out \<and>
           (\<forall>k. map_of out k =
              (if k \<in> set copied_if_truthy then
                 (case map_of kv k of Some v \<Rightarrow> if truthy v then Some v else None | None \<Rightarrow> None)
               else if k \<in> set copied_if_present then map_of kv k
               else if k = ''extracted_data'' then
                 (case map_of kv k of
                    Some x \<Rightarrow>
                      if truthy x then
                        map_option JEnvelope
                          (encryptData env (case x of JStr s \<Rightarrow> s | _ \<Rightarrow> json_stringify env x))
                      else None
                  | None \<Rightarrow> None)
               else None))"
  proof (cases "map_of kv ''extracted_data''")
    case None
    with r have "result = JObj (allowed_fields (JObj kv))"
      by (simp add: sanitizeMetadata_def Let_def)
    then show ?thesis
      using None ex by (auto simp: map_of_allowed_fields split: option.splits)
  next
    case (Some x)
    show ?thesis
    proof (cases "truthy x")
      case False
      with r Some have "result = JObj (allowed_fields (JObj kv))"
        by (simp add: sanitizeMetadata_def Let_def)
      then show ?thesis
        using Some False ex by (auto simp: map_of_allowed_fields split: option.splits)
    next
      case True
      with r Some obtain p where
        p: "encryptData env (case x of JStr s \<Rightarrow> s | _ \<Rightarrow> json_stringify env x) = Some p"
        and res: "result = JObj (AList.update ''extracted_data'' (JEnvelope p) (allowed_fields (JObj kv)))"
        by (auto simp: sanitizeMetadata_def Let_def)
      show ?thesis
        using Some True ex p unfolding res
        by (auto simp: map_of_allowed_fields AList.update_conv' split: option.splits)
    qed
  qed
qed

text \<open>The spec's example: \<open>{source:"fb", secret_token:"xyz", lead_name:"Jane"}\<close> yields
  exactly \<open>{source:"fb", lead_name:"Jane"}\<close>.\<close>

theorem sanitizeMetadata_allow_list_witness:
  "sanitizeMetadata (memory_env ''adm-1'' sample_db)
     (Some (JObj [(''source'', JStr ''fb''), (''secret_token'', JStr ''xyz''), (''lead_name'', JStr ''Jane'')]))
   = Some (JObj [(''source'', JStr ''fb''), (''lead_name'', JStr ''Jane'')])
   \<and> (\<exists>out. JObj [(''source'', JStr ''fb''), (''lead_name'', JStr ''Jane'')] = JObj out
        \<and> map_of out ''source'' = Some (JStr ''fb'') \<and> map_of out ''secret_token'' = None)"
proof -
  have ev: "sanitizeMetadata (memory_env ''adm-1'' sample_db)
     (Some (JObj [(''source'', JStr ''fb''), (''secret_token'', JStr ''xyz''), (''lead_name'', JStr ''Jane'')]))
   = Some (JObj [(''source'', JStr ''fb''), (''lead_name'', JStr ''Jane'')])"
    by (simp add: sanitizeMetadata_def allowed_fields_def copy_truthy_def copy_defined_def)
  from sanitizeMetadata_allow_list
    [of "memory_env ''adm-1'' sample_db"
        "[(''source'', JStr ''fb''), (''secret_token'', JStr ''xyz''), (''lead_name'', JStr ''Jane'')]"]
  have "\<exists>out. JObj [(''source'', JStr ''fb''), (''lead_name'', JStr ''Jane'')] = JObj out \<and>
     (\<forall>k. map_of out k = map_of [(''source'', JStr ''fb''), (''lead_name'', JStr ''Jane'')] k)"
    using ev by simp
  with ev show ?thesis by simp
qed

text \<open>
  C6 as stated fails: \<open>error_message\<close> and \<open>lead_name\<close> are allow-listed and present
  in \<open>{source:"fb", error_message:null, lead_name:""}\<close>, and absent from the result
  \<open>{source:"fb"}\<close>.
\<close>

theorem sanitizeMetadata_falsy_counterexample:
  "map_of [(''source'', JStr ''fb''), (''error_message'', JNull), (''lead_name'', JStr '''')]
       ''error_message'' = Some JNull
   \<and> map_of [(''source'', JStr ''fb''), (''error_message'', JNull), (''lead_name'', JStr '''')]
       ''lead_name'' = Some (JStr '''')
   \<and> sanitizeMetadata (memory_env ''adm-1'' sample_db)
       (Some (JObj [(''source'', JStr ''fb''), (''error_message'', JNull), (''lead_name'', JStr '''')]))
     = Some (JObj [(''source'', JStr ''fb'')])"
  by (simp add: sanitizeMetadata_def allowed_fields_def copy_truthy_def copy_defined_def)

section \<open>Sensitive text of the demo calls\<close>


section \<open>The rows of the calls action\<close>

lemma mask_call_fields:
  assumes "mask_call env c = Some r"
    and "map_of c ''lead_id'' = Some (JStr l)" and "l \<noteq> []"
    and "map_of c ''transcript'' = Some (JStr t)" and "t \<noteq> []"
    and "map_of c ''recording_url'' = Some (JStr u)" and "u \<noteq> []"
  shows "map_of r ''lead_id'' = Some (JStr (take 8 l @ ''...''))"
    and "\<exists>p. encryptData env t = Some p \<and> map_of r ''transcript'' = Some (JEnvelope p)"
    and "map_of r ''recording_url''
           = Some (JStr (''proxy:recording:'' @ template_text env (map_of c ''id'')))"
  using assms
  by (auto simp: mask_call_def mask_active_call_def bind_eq_Some_conv map_of_spread_with
      encrypt_field_def maskUuid_value_def maskUuid_def proxyRecordingUrl_value_def)

lemma handle_calls_cases:
  "(\<exists>message. store env (calls_query (map_of params ''client_id'') (map_of params ''start_date'')
         (map_of params ''status'')) = Inl message
       \<and> fst (handle_calls env params) = Some (error_response 500 message))
   \<or> (\<exists>data. store env (calls_query (map_of params ''client_id'') (map_of params ''start_date'')
         (map_of params ''status'')) = Inr data
       \<and> fst (handle_calls env params) = rows_response (mask_call env) data)"
  by (cases "store env (calls_query (map_of params ''client_id'') (map_of params ''start_date'')
         (map_of params ''status''))")
     (simp_all add: handle_calls_def Let_def)

lemma calls_response:
  assumes "authenticated env req userId"
    and "map_of (req_params req) ''action'' = Some ''calls''"
  shows "fst (serve env req) =
     (case fst (handle_calls env (req_params req)) of
        Some resp \<Rightarrow> resp
      | None \<Rightarrow> error_response 500 ''Internal server error'')"
  using assms(2) by (simp add: serve_authenticated [OF assms(1)] dispatch_def)

text \<open>
  C8, as the code has it. An authenticated request with \<open>action=calls\<close> is answered
  200, or 500 with an error body and no row. When it is answered 200, the body has
  one row for each stored call the query returned, in the same order; and for every
  stored call whose \<open>lead_id\<close>, \<open>transcript\<close> and \<open>recording_url\<close> are strings that are
  not empty, the row returned has \<open>lead_id\<close> equal to the first 8 characters of the
  stored lead id followed by \<open>...\<close>, \<open>transcript\<close> equal to the envelope \<open>encryptData\<close>
  produced for the stored transcript, not the stored string, and \<open>recording_url\<close>
  equal to \<open>proxy:recording:\<close> followed by the call's id, as the template literal
  prints it: the id itself when it is a string. The stored URL, a storage URL and
  not a token of the proxy, is not the row's \<open>recording_url\<close>.
\<close>

theorem calls_rows_masked:
  assumes "authenticated env req userId"
    and "map_of (req_params req) ''action'' = Some ''calls''"
    and "serve env req = (resp, queries)"
  shows "(resp_status resp = 200
          \<or> resp_status resp = 500
             \<and> (\<exists>m. resp_body resp = Some (JObj [(''error'', JStr m)])))
   \<and> (resp_status resp = 200 \<longrightarrow>
       (\<exists>data rows.
          store env (calls_query (map_of (req_params req) ''client_id'')
            (map_of (req_params req) ''start_date'') (map_of (req_params req) ''status''))
            = Inr data
          \<and> resp_body resp = Some (JArr (map JObj rows))
          \<and> length rows = length data
          \<and> (\<forall>i < length data. \<forall>l t u.
                map_of (data ! i) ''lead_id'' = Some (JStr l) \<and> l \<noteq> []
                \<and> map_of (data ! i) ''transcript'' = Some (JStr t) \<and> t \<noteq> []
                \<and> map_of (data ! i) ''recording_url'' = Some (JStr u) \<and> u \<noteq> []
                \<longrightarrow>
                  map_of (rows ! i) ''lead_id'' = Some (JStr (take 8 l @ ''...''))
                  \<and> (\<exists>p. encryptData env t = Some p
                         \<and> map_of (rows ! i) ''transcript'' = Some (JEnvelope p))
                  \<and> map_of (rows ! i) ''transcript'' \<noteq> Some (JStr t)
                  \<and> map_of (rows ! i) ''recording_url''
                      = Some (JStr (''proxy:recording:''
                                    @ template_text env (map_of (data ! i) ''id'')))
                  \<and> (\<forall>cid. map_of (data ! i) ''id'' = Some (JStr cid) \<longrightarrow>
                        map_of (rows ! i) ''recording_url''
                          = Some (JStr (''proxy:recording:'' @ cid)))
                  \<and> (take 16 u \<noteq> ''proxy:recording:'' \<longrightarrow>
                        map_of (rows ! i) ''recording_url'' \<noteq> Some (JStr u)))))"
proof -
  let ?q = "calls_query (map_of (req_params req) ''client_id'')
            (map_of (req_params req) ''start_date'') (map_of (req_params req) ''status'')"
  let ?h = "fst (handle_calls env (req_params req))"
  from assms(3) calls_response [OF assms(1) assms(2)]
  have resp: "resp = (case ?h of Some r \<Rightarrow> r
                      | None \<Rightarrow> error_response 500 ''Internal server error'')"
    by simp
  from handle_calls_cases [of env "req_params req"]
  consider (failed) message where "store env ?q = Inl message"
      "?h = Some (error_response 500 message)"
    | (thrown) data where "store env ?q = Inr data" "?h = None"
    | (rows) data r where "store env ?q = Inr data" "?h = Some r"
      "rows_response (mask_call env) data = Some r"
    by (cases ?h) auto
  then show ?thesis
  proof cases
    case failed
    with resp have "resp = error_response 500 message" by simp
    then show ?thesis by (simp add: error_response_def)
  next
    case thrown
    with resp have "resp = error_response 500 ''Internal server error''" by simp
    then show ?thesis by (simp add: error_response_def)
  next
    case rows
    with resp have rr: "resp = r" by simp
    from rows_response_Some [OF rows(3)] rr obtain rws where
      r: "resp = ok_response (JArr (map JObj rws))"
      and all: "list_all2 (\<lambda>c r. mask_call env c = Some r) data rws"
      by blast
    from all have len: "length rws = length data"
      by (simp add: list_all2_lengthD)
    have nth: "mask_call env (data ! i) = Some (rws ! i)" if "i < length data" for i
      using all that by (rule list_all2_nthD)
    have body: "resp_body resp = Some (JArr (map JObj rws))" by (simp add: r)
    have per: "\<forall>i < length data. \<forall>l t u.
                map_of (data ! i) ''lead_id'' = Some (JStr l) \<and> l \<noteq> []
                \<and> map_of (data ! i) ''transcript'' = Some (JStr t) \<and> t \<noteq> []
                \<and> map_of (data ! i) ''recording_url'' = Some (JStr u) \<and> u \<noteq> []
                \<longrightarrow>
                  map_of (rws ! i) ''lead_id'' = Some (JStr (take 8 l @ ''...''))
                  \<and> (\<exists>p. encryptData env t = Some p
                         \<and> map_of (rws ! i) ''transcript'' = Some (JEnvelope p))
                  \<and> map_of (rws ! i) ''transcript'' \<noteq> Some (JStr t)
                  \<and> map_of (rws ! i) ''recording_url''
                      = Some (JStr (''proxy:recording:''
                                    @ template_text env (map_of (data ! i) ''id'')))
                  \<and> (\<forall>cid. map_of (data ! i) ''id'' = Some (JStr cid) \<longrightarrow>
                        map_of (rws ! i) ''recording_url''
                          = Some (JStr (''proxy:recording:'' @ cid)))
                  \<and> (take 16 u \<noteq> ''proxy:recording:'' \<longrightarrow>
                        map_of (rws ! i) ''recording_url'' \<noteq> Some (JStr u))"
    proof (intro allI impI)
      fix i l t u
      assume i: "i < length data"
        and h: "map_of (data ! i) ''lead_id'' = Some (JStr l) \<and> l \<noteq> []
                \<and> map_of (data ! i) ''transcript'' = Some (JStr t) \<and> t \<noteq> []
                \<and> map_of (data ! i) ''recording_url'' = Some (JStr u) \<and> u \<noteq> []"
      note m = nth [OF i]
      from h have hl: "map_of (data ! i) ''lead_id'' = Some (JStr l)" "l \<noteq> []"
        and ht: "map_of (data ! i) ''transcript'' = Some (JStr t)" "t \<noteq> []"
        and hu: "map_of (data ! i) ''recording_url'' = Some (JStr u)" "u \<noteq> []"
        by simp_all
      note f = mask_call_fields [OF m hl ht hu]
      from f(2) have nt: "map_of (rws ! i) ''transcript'' \<noteq> Some (JStr t)" by auto
      from f(3) have idc: "\<forall>cid. map_of (data ! i) ''id'' = Some (JStr cid) \<longrightarrow>
                        map_of (rws ! i) ''recording_url''
                          = Some (JStr (''proxy:recording:'' @ cid))"
        by simp
      from f(3) have nu: "take 16 u \<noteq> ''proxy:recording:'' \<longrightarrow>
                        map_of (rws ! i) ''recording_url'' \<noteq> Some (JStr u)"
        by auto
      show "map_of (rws ! i) ''lead_id'' = Some (JStr (take 8 l @ ''...''))
                  \<and> (\<exists>p. encryptData env t = Some p
                         \<and> map_of (rws ! i) ''transcript'' = Some (JEnvelope p))
                  \<and> map_of (rws ! i) ''transcript'' \<noteq> Some (JStr t)
                  \<and> map_of (rws ! i) ''recording_url''
                      = Some (JStr (''proxy:recording:''
                                    @ template_text env (map_of (data ! i) ''id'')))
                  \<and> (\<forall>cid. map_of (data ! i) ''id'' = Some (JStr cid) \<longrightarrow>
                        map_of (rws ! i) ''recording_url''
                          = Some (JStr (''proxy:recording:'' @ cid)))
                  \<and> (take 16 u \<noteq> ''proxy:recording:'' \<longrightarrow>
                        map_of (rws ! i) ''recording_url'' \<noteq> Some (JStr u))"
        by (intro conjI f(1) f(2) nt f(3) idc nu)
    qed
    have ex: "\<exists>data rows.
          store env ?q = Inr data
          \<and> resp_body resp = Some (JArr (map JObj rows))
          \<and> length rows = length data
          \<and> (\<forall>i < length data. \<forall>l t u.
                map_of (data ! i) ''lead_id'' = Some (JStr l) \<and> l \<noteq> []
                \<and> map_of (data ! i) ''transcript'' = Some (JStr t) \<and> t \<noteq> []
                \<and> map_of (data ! i) ''recording_url'' = Some (JStr u) \<and> u \<noteq> []
                \<longrightarrow>
                  map_of (rows ! i) ''lead_id'' = Some (JStr (take 8 l @ ''...''))
                  \<and> (\<exists>p. encryptData env t = Some p
                         \<and> map_of (rows ! i) ''transcript'' = Some (JEnvelope p))
                  \<and> map_of (rows ! i) ''transcript'' \<noteq> Some (JStr t)
                  \<and> map_of (rows ! i) ''recording_url''
                      = Some (JStr (''proxy:recording:''
                                    @ template_text env (map_of (data ! i) ''id'')))
                  \<and> (\<forall>cid. map_of (data ! i) ''id'' = Some (JStr cid) \<longrightarrow>
                        map_of (rows ! i) ''recording_url''
                          = Some (JStr (''proxy:recording:'' @ cid)))
                  \<and> (take 16 u \<noteq> ''proxy:recording:'' \<longrightarrow>
                        map_of (rows ! i) ''recording_url'' \<noteq> Some (JStr u)))"
      by (rule exI [of _ data], rule exI [of _ rws]) (intro conjI rows(1) body len per)
    have st: "resp_status resp = 200" by (simp add: r)
    from st ex show ?thesis by blast
  qed
qed

text \<open>The spec's scenario: an admin calls \<open>action=calls&client_id=C1\<close>; the store
  returns one row with transcript \<open>hello\<close>, lead \<open>L1\<close> and a recording URL.\<close>

theorem calls_rows_masked_witness:
  "\<exists>rows. resp_body (fst (serve (memory_env ''adm-1'' sample_db)
          (get_request [(''action'', ''calls''), (''client_id'', ''C1'')])))
        = Some (JArr (map JObj rows))
     \<and> length rows = 1
     \<and> map_of (rows ! 0) ''lead_id'' = Some (JStr ''L1...'')
     \<and> map_of (rows ! 0) ''transcript''
         = Some (JEnvelope (EncryptedPayload ''AES-256-GCM'' ''iv'' ''tag'' ''olleh''))
     \<and> map_of (rows ! 0) ''transcript'' \<noteq> Some (JStr ''hello'')
     \<and> map_of (rows ! 0) ''recording_url'' = Some (JStr ''proxy:recording:c1'')
     \<and> map_of (rows ! 0) ''recording_url'' \<noteq> Some (JStr ''https://store.example/r.mp3'')"
proof -
  let ?E = "memory_env ''adm-1'' sample_db"
  let ?R = "get_request [(''action'', ''calls''), (''client_id'', ''C1'')]"
  let ?c1 = "[(''id'', JStr ''c1''), (''client_id'', JStr ''C1''), (''lead_id'', JStr ''L1''),
          (''status'', JStr ''completed''), (''connected'', JBool True),
          (''duration_seconds'', JNum 42),
          (''created_at'', JStr ''2026-01-02T10:00:00.000Z''),
          (''summary'', JStr ''wants a callback''), (''transcript'', JStr ''hello''),
          (''recording_url'', JStr ''https://store.example/r.mp3''),
          (''metadata'', JObj [(''source'', JStr ''fb''), (''secret_token'', JStr ''xyz''),
             (''lead_name'', JStr ''Jane''), (''extracted_data'', JStr ''budget'')])]"
  have auth: "authenticated ?E ?R ''adm-1''"
    by (simp add: authenticated_def memory_env_def get_request_def)
  have act: "map_of (req_params ?R) ''action'' = Some ''calls''"
    by (simp add: get_request_def)
  have st: "resp_status (fst (serve ?E ?R)) = 200"
    by code_simp
  have pair: "serve ?E ?R = (fst (serve ?E ?R), snd (serve ?E ?R))"
    by simp
  have stored: "store ?E (calls_query (map_of (req_params ?R) ''client_id'')
       (map_of (req_params ?R) ''start_date'') (map_of (req_params ?R) ''status''))
     = Inr [?c1]"
    by (simp add: memory_env_def get_request_def calls_query_def memory_store_def sample_db_def)
  from calls_rows_masked [OF auth act pair] st obtain data rows where
    d: "store ?E (calls_query (map_of (req_params ?R) ''client_id'')
       (map_of (req_params ?R) ''start_date'') (map_of (req_params ?R) ''status'')) = Inr data"
    and b: "resp_body (fst (serve ?E ?R)) = Some (JArr (map JObj rows))"
    and len: "length rows = length data"
    and per: "\<forall>i < length data. \<forall>l t u.
                map_of (data ! i) ''lead_id'' = Some (JStr l) \<and> l \<noteq> []
                \<and> map_of (data ! i) ''transcript'' = Some (JStr t) \<and> t \<noteq> []
                \<and> map_of (data ! i) ''recording_url'' = Some (JStr u) \<and> u \<noteq> []
                \<longrightarrow>
                  map_of (rows ! i) ''lead_id'' = Some (JStr (take 8 l @ ''...''))
                  \<and> (\<exists>p. encryptData ?E t = Some p
                         \<and> map_of (rows ! i) ''transcript'' = Some (JEnvelope p))
                  \<and> map_of (rows ! i) ''transcript'' \<noteq> Some (JStr t)
                  \<and> map_of (rows ! i) ''recording_url''
                      = Some (JStr (''proxy:recording:''
                                    @ template_text ?E (map_of (data ! i) ''id'')))
                  \<and> (\<forall>cid. map_of (data ! i) ''id'' = Some (JStr cid) \<longrightarrow>
                        map_of (rows ! i) ''recording_url''
                          = Some (JStr (''proxy:recording:'' @ cid)))
                  \<and> (take 16 u \<noteq> ''proxy:recording:'' \<longrightarrow>
                        map_of (rows ! i) ''recording_url'' \<noteq> Some (JStr u))"
    by blast
  from d stored have data: "data = [?c1]"
    by simp
  from per [rule_format, of 0 "''L1''" "''hello''" "''https://store.example/r.mp3''"]
  have "map_of (rows ! 0) ''lead_id'' = Some (JStr ''L1...'')
     \<and> map_of (rows ! 0) ''transcript''
         = Some (JEnvelope (EncryptedPayload ''AES-256-GCM'' ''iv'' ''tag'' ''olleh''))
     \<and> map_of (rows ! 0) ''transcript'' \<noteq> Some (JStr ''hello'')
     \<and> map_of (rows ! 0) ''recording_url'' = Some (JStr ''proxy:recording:c1'')
     \<and> map_of (rows ! 0) ''recording_url'' \<noteq> Some (JStr ''https://store.example/r.mp3'')"
    unfolding data by (simp add: memory_env_def seal_def)
  with b len data show ?thesis by auto
qed

text \<open>
  C8 as stated fails: the stored call \<open>c2\<close> has a transcript that is not \<open>null\<close>, the
  empty string, and the row returned for it has \<open>transcript\<close> \<open>null\<close>, not an envelope.
\<close>

theorem calls_empty_transcript_counterexample:
  "stored_column (memory_env ''adm-1'' sample_db) (calls_query (Some ''C2'') None None)
      ''transcript'' = [Some (JStr '''')]
   \<and> stored_column (memory_env ''adm-1'' sample_db) (calls_query (Some ''C2'') None None)
      ''lead_id'' = [Some (JStr ''0123456789abcdef'')]
   \<and> stored_column (memory_env ''adm-1'' sample_db) (calls_query (Some ''C2'') None None)
      ''recording_url'' = [Some (JStr ''https://store.example/r2.mp3'')]
   \<and> resp_status (fst (serve (memory_env ''adm-1'' sample_db)
        (get_request [(''action'', ''calls''), (''client_id'', ''C2'')]))) = 200
   \<and> body_column (fst (serve (memory_env ''adm-1'' sample_db)
        (get_request [(''action'', ''calls''), (''client_id'', ''C2'')]))) ''transcript''
      = [Some JNull]"
  by code_simp

section \<open>Self-scoping of engineers\<close>

text \<open>
  C1. What the code does at a request the claim covers: the engineer \<open>eng-1\<close> asks for
  \<open>demo_calls\<close> with no \<open>engineer_id\<close> parameter. The query has no filter, and the
  response, 200, holds the demo call of \<open>eng-2\<close> beside the caller's own.
\<close>

theorem demo_calls_engineer_unscoped:
  "lookup_role (memory_env ''eng-1'' sample_db) ''eng-1'' = Some (JStr ''engineer'')
   \<and> q_filters (demo_calls_query (Some (JStr ''engineer'')) None) = []
   \<and> resp_status (fst (serve (memory_env ''eng-1'' sample_db)
        (get_request [(''action'', ''demo_calls'')]))) = 200
   \<and> body_column (fst (serve (memory_env ''eng-1'' sample_db)
        (get_request [(''action'', ''demo_calls'')]))) ''engineer_id''
      = [Some (JStr ''eng-2''), Some (JStr ''eng-1'')]"
  by code_simp

section \<open>Failures of the backing store\<close>

text \<open>
  C3. What the code does at a request the claim covers: the admin \<open>adm-1\<close> asks for
  \<open>calls\<close> and the fetch of the calls fails. The response is 500, and its body is not
  the generic one: it holds the cause, the store's own message.
\<close>

theorem store_error_leaks:
  "lookup_role (memory_env ''adm-1'' roles_only_db) ''adm-1'' = Some (JStr ''admin'')
   \<and> store (memory_env ''adm-1'' roles_only_db) (calls_query None None None)
     = Inl ''relation calls does not exist''
   \<and> serve (memory_env ''adm-1'' roles_only_db) (get_request [(''action'', ''calls'')])
     = (\<lparr>resp_status = 500,
         resp_body = Some (JObj [(''error'', JStr ''relation calls does not exist'')])\<rparr>,
        [role_query ''adm-1'', calls_query None None None])"
  by code_simp

section \<open>Actions open to every role\<close>

lemma list_all2_those:
  "list_all2 (\<lambda>x y. f x = Some y) xs ys \<Longrightarrow> those (map f xs) = Some ys"
  by (induction xs ys rule: list_all2_induct) simp_all

lemma rows_response_list_all2:
  "list_all2 (\<lambda>c r. f c = Some r) data rows \<Longrightarrow>
   rows_response f data = Some (ok_response (JArr (map JObj rows)))"
  by (simp add: rows_response_def list_all2_those)

lemma rows_response_not_403:
  "rows_response f data = Some resp \<Longrightarrow> resp_status resp \<noteq> 403"
  by (auto simp: rows_response_def)

text \<open>The handler of an open action: its query, and what it does with the outcome of
  the fetch.\<close>

lemma open_dispatch_shape:
  assumes "map_of params ''action'' = Some a" and "a \<in> set open_actions"
  shows "\<exists>q. primary_query env role params = Some q
     \<and> (case store env q of
          Inl m \<Rightarrow> dispatch env role params = (Some (error_response 500 m), [q])
        | Inr data \<Rightarrow>
            fst (dispatch env role params) = rows_response (open_row_mask env a data) data
            \<and> take 1 (snd (dispatch env role params)) = [q])"
proof -
  from assms(2) consider (calls) "a = ''calls''" | (demo) "a = ''demo_calls''"
    | (tasks) "a = ''tasks''"
    by (auto simp: open_actions_def)
  then show ?thesis
  proof cases
    case calls
    with assms(1) show ?thesis
      by (simp add: primary_query_def dispatch_def handle_calls_def open_row_mask_def Let_def
          split: sum.splits)
  next
    case demo
    with assms(1) show ?thesis
      by (simp add: primary_query_def dispatch_def handle_demo_calls_def open_row_mask_def
          Let_def split: sum.splits)
  next
    case tasks
    with assms(1) show ?thesis
      by (simp add: primary_query_def dispatch_def handle_tasks_def open_row_mask_def Let_def
          split: sum.splits)
  qed
qed

lemma open_dispatch_any_role:
  assumes "map_of params ''action'' = Some a" and "a = ''calls'' \<or> a = ''tasks''"
  shows "dispatch env role params = dispatch env role' params"
    and "primary_query env role params = primary_query env role' params"
  using assms by (auto simp: dispatch_def primary_query_def)

text \<open>
  C10, as the code has it. For an authenticated principal, whatever the lookup of the
  role gave, a role or none, the actions \<open>calls\<close>, \<open>demo_calls\<close> and \<open>tasks\<close> are not
  answered 403. Each reaches its handler: the handler's query follows the lookup of
  the role. Absent upstream errors, that is when the fetch succeeds and no error is
  thrown while a row is masked, the response is 200 and its body is the masked row
  set of the fetch: the rows fetched, in their order, each transformed by the
  handler's masking. For \<open>calls\<close> and \<open>tasks\<close> the caller's role restricts nothing: with
  any other role in place of the caller's, the query, the queries sent and the
  response are the same.
\<close>

theorem open_actions_any_role:
  assumes "authenticated env req userId"
    and "map_of (req_params req) ''action'' = Some a"
    and "a \<in> set open_actions"
  shows "resp_status (fst (serve env req)) \<noteq> 403
   \<and> (\<exists>q. primary_query env (lookup_role env userId) (req_params req) = Some q
         \<and> take 2 (snd (serve env req)) = [role_query userId, q]
         \<and> (\<forall>data rows.
               store env q = Inr data
               \<and> list_all2 (\<lambda>c r. open_row_mask env a data c = Some r) data rows
               \<longrightarrow> fst (serve env req)
                     = \<lparr>resp_status = 200, resp_body = Some (JArr (map JObj rows))\<rparr>))
   \<and> (a \<noteq> ''demo_calls'' \<longrightarrow>
        (\<forall>role.
           primary_query env role (req_params req)
             = primary_query env (lookup_role env userId) (req_params req)
           \<and> serve env req =
               (case fst (dispatch env role (req_params req)) of
                  Some resp \<Rightarrow> resp
                | None \<Rightarrow> error_response 500 ''Internal server error'',
                role_query userId # snd (dispatch env role (req_params req)))))"
proof -
  let ?role = "lookup_role env userId"
  let ?d = "dispatch env ?role (req_params req)"
  note sv = serve_authenticated [OF assms(1)]
  from open_dispatch_shape [OF assms(2) assms(3), of env ?role] obtain q where
    pq: "primary_query env ?role (req_params req) = Some q"
    and sh: "case store env q of
          Inl m \<Rightarrow> ?d = (Some (error_response 500 m), [q])
        | Inr data \<Rightarrow>
            fst ?d = rows_response (open_row_mask env a data) data
            \<and> take 1 (snd ?d) = [q]"
    by blast
  have c1: "resp_status (fst (serve env req)) \<noteq> 403"
  proof (cases "store env q")
    case (Inl m)
    with sh have "?d = (Some (error_response 500 m), [q])" by simp
    then show ?thesis by (simp add: sv)
  next
    case (Inr data)
    with sh have f: "fst ?d = rows_response (open_row_mask env a data) data" by simp
    show ?thesis
    proof (cases "fst ?d")
      case None
      then show ?thesis by (simp add: sv)
    next
      case (Some resp)
      with f have "resp_status resp \<noteq> 403" by (simp add: rows_response_not_403)
      with Some show ?thesis by (simp add: sv)
    qed
  qed
  have t1: "take 1 (snd ?d) = [q]"
  proof (cases "store env q")
    case (Inl m)
    with sh show ?thesis by simp
  next
    case (Inr data)
    with sh show ?thesis by simp
  qed
  have "take 2 (role_query userId # snd ?d) = role_query userId # take 1 (snd ?d)"
    by (simp add: numeral_2_eq_2)
  with t1 have c2: "take 2 (snd (serve env req)) = [role_query userId, q]"
    by (simp add: sv)
  have c3: "\<forall>data rows.
               store env q = Inr data
               \<and> list_all2 (\<lambda>c r. open_row_mask env a data c = Some r) data rows
               \<longrightarrow> fst (serve env req)
                     = \<lparr>resp_status = 200, resp_body = Some (JArr (map JObj rows))\<rparr>"
  proof (intro allI impI)
    fix data rows
    assume h: "store env q = Inr data
               \<and> list_all2 (\<lambda>c r. open_row_mask env a data c = Some r) data rows"
    with sh have "fst ?d = rows_response (open_row_mask env a data) data" by simp
    with h have "fst ?d = Some (ok_response (JArr (map JObj rows)))"
      by (simp add: rows_response_list_all2)
    then show "fst (serve env req)
                     = \<lparr>resp_status = 200, resp_body = Some (JArr (map JObj rows))\<rparr>"
      by (simp add: sv ok_response_def)
  qed
  have c4: "a \<noteq> ''demo_calls'' \<longrightarrow>
        (\<forall>role.
           primary_query env role (req_params req)
             = primary_query env (lookup_role env userId) (req_params req)
           \<and> serve env req =
               (case fst (dispatch env role (req_params req)) of
                  Some resp \<Rightarrow> resp
                | None \<Rightarrow> error_response 500 ''Internal server error'',
                role_query userId # snd (dispatch env role (req_params req))))"
  proof (intro impI allI)
    fix role
    assume "a \<noteq> ''demo_calls''"
    with assms(3) have ct: "a = ''calls'' \<or> a = ''tasks''"
      by (auto simp: open_actions_def)
    note any = open_dispatch_any_role [OF assms(2) ct, of env role ?role]
    show "primary_query env role (req_params req)
             = primary_query env (lookup_role env userId) (req_params req)
           \<and> serve env req =
               (case fst (dispatch env role (req_params req)) of
                  Some resp \<Rightarrow> resp
                | None \<Rightarrow> error_response 500 ''Internal server error'',
                role_query userId # snd (dispatch env role (req_params req)))"
      unfolding any by (simp add: sv)
  qed
  have ex: "\<exists>q. primary_query env (lookup_role env userId) (req_params req) = Some q
         \<and> take 2 (snd (serve env req)) = [role_query userId, q]
         \<and> (\<forall>data rows.
               store env q = Inr data
               \<and> list_all2 (\<lambda>c r. open_row_mask env a data c = Some r) data rows
               \<longrightarrow> fst (serve env req)
                     = \<lparr>resp_status = 200, resp_body = Some (JArr (map JObj rows))\<rparr>)"
    by (rule exI [of _ q]) (intro conjI pq c2 c3)
  show ?thesis
    by (intro conjI c1 ex c4)
qed

text \<open>A principal with no role record asks for \<open>tasks\<close>: the response is 200 with the
  one task of the table, its agent's external id masked, and it is the response an
  admin would get.\<close>

theorem open_actions_any_role_witness:
  "lookup_role (memory_env ''ghost'' sample_db) ''ghost'' = None
   \<and> resp_status (fst (serve (memory_env ''ghost'' sample_db)
        (get_request [(''action'', ''tasks'')]))) \<noteq> 403
   \<and> take 2 (snd (serve (memory_env ''ghost'' sample_db) (get_request [(''action'', ''tasks'')])))
      = [role_query ''ghost'', tasks_query None None]
   \<and> fst (serve (memory_env ''ghost'' sample_db) (get_request [(''action'', ''tasks'')]))
      = \<lparr>resp_status = 200,
         resp_body = Some (JArr [JObj
           [(''id'', JStr ''t1''), (''title'', JStr ''Demo''), (''assigned_to'', JStr ''eng-1''),
            (''aitel_agents'', JObj [(''agent_name'', JStr ''Asha''),
               (''external_agent_id'', JStr ''01234567...''),
               (''current_system_prompt'', JNull),
               (''original_system_prompt'', JNull)])]])\<rparr>
   \<and> serve (memory_env ''ghost'' sample_db) (get_request [(''action'', ''tasks'')])
     = (case fst (dispatch (memory_env ''ghost'' sample_db) (Some (JStr ''admin''))
                   [(''action'', ''tasks'')]) of
          Some resp \<Rightarrow> resp
        | None \<Rightarrow> error_response 500 ''Internal server error'',
        role_query ''ghost'' # snd (dispatch (memory_env ''ghost'' sample_db)
                   (Some (JStr ''admin'')) [(''action'', ''tasks'')]))"
proof -
  let ?E = "memory_env ''ghost'' sample_db"
  let ?R = "get_request [(''action'', ''tasks'')]"
  let ?t1 = "[(''id'', JStr ''t1''), (''title'', JStr ''Demo''), (''assigned_to'', JStr ''eng-1''),
          (''aitel_agents'', JObj [(''agent_name'', JStr ''Asha''),
             (''external_agent_id'', JStr ''0123456789abcdef'')])]"
  let ?m1 = "[(''id'', JStr ''t1''), (''title'', JStr ''Demo''), (''assigned_to'', JStr ''eng-1''),
            (''aitel_agents'', JObj [(''agent_name'', JStr ''Asha''),
               (''external_agent_id'', JStr ''01234567...''),
               (''current_system_prompt'', JNull),
               (''original_system_prompt'', JNull)])]"
  have auth: "authenticated ?E ?R ''ghost''"
    by (simp add: authenticated_def memory_env_def get_request_def)
  have act: "map_of (req_params ?R) ''action'' = Some ''tasks''"
    by (simp add: get_request_def)
  have opn: "''tasks'' \<in> set open_actions"
    by (simp add: open_actions_def)
  have role: "lookup_role ?E ''ghost'' = None"
    by code_simp
  have q: "primary_query ?E (lookup_role ?E ''ghost'') (req_params ?R)
      = Some (tasks_query None None)"
    by (simp add: primary_query_def get_request_def)
  have stored: "store ?E (tasks_query None None) = Inr [?t1]"
    by (simp add: memory_env_def tasks_query_def memory_store_def sample_db_def)
  have masked: "open_row_mask ?E ''tasks'' [?t1] ?t1 = Some ?m1"
    by code_simp
  then have rows: "list_all2 (\<lambda>c r. open_row_mask ?E ''tasks'' [?t1] c = Some r) [?t1] [?m1]"
    by simp
  have params: "req_params ?R = [(''action'', ''tasks'')]"
    by (simp add: get_request_def)
  note inst = open_actions_any_role [OF auth act opn]
  from inst have one: "resp_status (fst (serve ?E ?R)) \<noteq> 403"
    by blast
  from inst obtain q' where
    pq: "primary_query ?E (lookup_role ?E ''ghost'') (req_params ?R) = Some q'"
    and tk: "take 2 (snd (serve ?E ?R)) = [role_query ''ghost'', q']"
    and c3: "\<forall>data rows.
               store ?E q' = Inr data
               \<and> list_all2 (\<lambda>c r. open_row_mask ?E ''tasks'' data c = Some r) data rows
               \<longrightarrow> fst (serve ?E ?R)
                     = \<lparr>resp_status = 200, resp_body = Some (JArr (map JObj rows))\<rparr>"
    by blast
  from pq q have q': "q' = tasks_query None None"
    by simp
  from tk have two: "take 2 (snd (serve ?E ?R)) = [role_query ''ghost'', tasks_query None None]"
    unfolding q' .
  from c3 have "\<forall>data rows.
               store ?E (tasks_query None None) = Inr data
               \<and> list_all2 (\<lambda>c r. open_row_mask ?E ''tasks'' data c = Some r) data rows
               \<longrightarrow> fst (serve ?E ?R)
                     = \<lparr>resp_status = 200, resp_body = Some (JArr (map JObj rows))\<rparr>"
    unfolding q' .
  from this [rule_format, of "[?t1]" "[?m1]"] stored rows
  have three: "fst (serve ?E ?R)
      = \<lparr>resp_status = 200, resp_body = Some (JArr [JObj ?m1])\<rparr>"
    by simp
  from inst have "\<forall>role. serve ?E ?R =
       (case fst (dispatch ?E role (req_params ?R)) of
          Some resp \<Rightarrow> resp
        | None \<Rightarrow> error_response 500 ''Internal server error'',
        role_query ''ghost'' # snd (dispatch ?E role (req_params ?R)))"
    by blast
  then have four: "serve ?E ?R =
       (case fst (dispatch ?E (Some (JStr ''admin'')) [(''action'', ''tasks'')]) of
          Some resp \<Rightarrow> resp
        | None \<Rightarrow> error_response 500 ''Internal server error'',
        role_query ''ghost'' # snd (dispatch ?E (Some (JStr ''admin'')) [(''action'', ''tasks'')]))"
    unfolding params by blast
  from role one two three four show ?thesis
    by blast
qed

text \<open>
  C10 as stated fails for \<open>demo_calls\<close>: with the parameter \<open>engineer_id=eng-2\<close> the
  engineer \<open>eng-1\<close> gets the one demo call of \<open>eng-2\<close>, and the admin, with the same
  request on the same tables, gets both demo calls. The row set returned depends on
  the caller's role.
\<close>

theorem demo_calls_role_counterexample:
  "lookup_role (memory_env ''eng-1'' sample_db) ''eng-1'' = Some (JStr ''engineer'')
   \<and> body_column (fst (serve (memory_env ''eng-1'' sample_db)
        (get_request [(''action'', ''demo_calls''), (''engineer_id'', ''eng-2'')]))) ''id''
      = [Some (JStr ''d2'')]
   \<and> lookup_role (memory_env ''adm-1'' sample_db) ''adm-1'' = Some (JStr ''admin'')
   \<and> body_column (fst (serve (memory_env ''adm-1'' sample_db)
        (get_request [(''action'', ''demo_calls''), (''engineer_id'', ''eng-2'')]))) ''id''
      = [Some (JStr ''d2''), Some (JStr ''d1'')]"
  by code_simp

section \<open>Further properties\<close>

text \<open>
  X1. \<open>maskUuid\<close> returns the fixed mask \<open>********\<close> for an absent or empty identifier,
  and the first 8 characters followed by \<open>...\<close> otherwise:
  \<open>maskUuid("a1b2c3d4e5f6") = "a1b2c3d4..."\<close>.
\<close>

theorem maskUuid_spec:
  "maskUuid None = ''********''
   \<and> maskUuid (Some []) = ''********''
   \<and> (u \<noteq> [] \<longrightarrow> maskUuid (Some u) = take 8 u @ ''...'')
   \<and> maskUuid (Some ''a1b2c3d4e5f6'') = ''a1b2c3d4...''"
  by (simp add: maskUuid_def)

theorem maskUuid_spec_witness:
  "''L1'' \<noteq> [] \<and> maskUuid (Some ''L1'') = ''L1...''"
  using maskUuid_spec [of "''L1''"] by simp

text \<open>
  X2. \<open>proxyRecordingUrl\<close> returns \<open>null\<close> for an absent or empty URL, and otherwise the
  token \<open>proxy:recording:\<close> followed by the record's id, whatever the URL is.
\<close>

theorem proxyRecordingUrl_spec:
  "proxyRecordingUrl None callId = None
   \<and> proxyRecordingUrl (Some []) callId = None
   \<and> (url \<noteq> [] \<longrightarrow> proxyRecordingUrl (Some url) callId = Some (''proxy:recording:'' @ callId))"
  by (simp add: proxyRecordingUrl_def)

theorem proxyRecordingUrl_spec_witness:
  "''https://store.example/r.mp3'' \<noteq> []
   \<and> proxyRecordingUrl (Some ''https://store.example/r.mp3'') ''c1'' = Some ''proxy:recording:c1''"
  using proxyRecordingUrl_spec [of "''c1''" "''https://store.example/r.mp3''"] by simp

text \<open>
  X3. A request that is not \<open>OPTIONS\<close>, whose \<open>Authorization\<close> header begins with
  \<open>Bearer \<close> and whose token the identity service does not accept, is answered 401 with
  the body \<open>{"error":"Invalid token"}\<close>, and no query is sent to the backing store.
\<close>

theorem invalid_token_401:
  assumes "req_method req \<noteq> ''OPTIONS''"
    and "req_authorization req = Some h"
    and "take 7 h = ''Bearer ''"
    and "getUser env h = None"
  shows "serve env req =
     (\<lparr>resp_status = 401, resp_body = Some (JObj [(''error'', JStr ''Invalid token'')])\<rparr>, [])"
  using assms by (simp add: serve_def error_response_def)

theorem invalid_token_401_witness:
  "serve (memory_env ''adm-1'' sample_db)
     \<lparr>req_method = ''GET'', req_authorization = Some ''Bearer expired'',
      req_params = [(''action'', ''calls'')]\<rparr>
   = (\<lparr>resp_status = 401, resp_body = Some (JObj [(''error'', JStr ''Invalid token'')])\<rparr>, [])"
  using invalid_token_401
      [of "\<lparr>req_method = ''GET'', req_authorization = Some ''Bearer expired'',
            req_params = [(''action'', ''calls'')]\<rparr>" "''Bearer expired''"
          "memory_env ''adm-1'' sample_db"]
  by (simp add: memory_env_def)

text \<open>On a string, and on \<open>null\<close> or \<open>undefined\<close>, the utilities run on the value of a
  column are the utilities of the source at their declared type.\<close>

lemma maskPhone_value_string:
  "maskPhone_value env (Some (JStr p)) = Some (maskPhone (Some p))"
  "maskPhone_value env (Some JNull) = Some (maskPhone None)"
  "maskPhone_value env None = Some (maskPhone None)"
  by (simp_all add: maskPhone_value_def)

lemma maskUuid_value_string:
  "maskUuid_value env (Some (JStr u)) = Some (maskUuid (Some u))"
  "maskUuid_value env (Some JNull) = Some (maskUuid None)"
  "maskUuid_value env None = Some (maskUuid None)"
  by (simp_all add: maskUuid_value_def)

lemma maskSystemPrompt_value_string:
  "maskSystemPrompt_value (Some (JStr p)) = opt_json (maskSystemPrompt (Some p))"
  "maskSystemPrompt_value (Some JNull) = opt_json (maskSystemPrompt None)"
  "maskSystemPrompt_value None = opt_json (maskSystemPrompt None)"
  by (simp_all add: maskSystemPrompt_value_def maskSystemPrompt_def)

lemma proxyRecordingUrl_value_string:
  "proxyRecordingUrl_value env (Some (JStr u)) (Some (JStr callId))
     = opt_json (proxyRecordingUrl (Some u) callId)"
  "proxyRecordingUrl_value env (Some JNull) (Some (JStr callId))
     = opt_json (proxyRecordingUrl None callId)"
  "proxyRecordingUrl_value env None (Some (JStr callId))
     = opt_json (proxyRecordingUrl None callId)"
  by (simp_all add: proxyRecordingUrl_value_def proxyRecordingUrl_def)

lemma handle_tasks_cases:
  "(\<exists>message. store env (tasks_query (map_of params ''assigned_to'') (map_of params ''status''))
         = Inl message
       \<and> fst (handle_tasks env params) = Some (error_response 500 message))
   \<or> (\<exists>data. store env (tasks_query (map_of params ''assigned_to'') (map_of params ''status''))
         = Inr data
       \<and> fst (handle_tasks env params) = rows_response (mask_task env) data)"
  by (cases "store env (tasks_query (map_of params ''assigned_to'') (map_of params ''status''))")
     (simp_all add: handle_tasks_def Let_def)

lemma mask_task_agent:
  assumes "mask_task env t = Some r"
  shows "\<not> truthy_opt (map_of t ''aitel_agents'') \<longrightarrow> map_of r ''aitel_agents'' = Some JNull"
    and "map_of t ''aitel_agents'' = Some (JObj agent) \<longrightarrow>
      (\<exists>a m. map_of r ''aitel_agents'' = Some (JObj a)
         \<and> maskUuid_value env (map_of agent ''external_agent_id'') = Some m
         \<and> map_of a ''external_agent_id'' = Some (JStr m)
         \<and> map_of a ''current_system_prompt''
             = Some (maskSystemPrompt_value (map_of agent ''current_system_prompt''))
         \<and> map_of a ''original_system_prompt''
             = Some (maskSystemPrompt_value (map_of agent ''original_system_prompt''))
         \<and> (\<forall>k. k \<notin> {''external_agent_id'', ''current_system_prompt'',
                        ''original_system_prompt''} \<longrightarrow> map_of a k = map_of agent k))"
  using assms
  by (auto simp: mask_task_def mask_agent_def bind_eq_Some_conv map_of_spread_with
      split: option.splits if_splits)

text \<open>
  X4. On the \<open>tasks\<close> action answered 200, the body has one row for each task fetched,
  in the same order. A task whose joined agent is falsy or absent is returned with
  \<open>aitel_agents\<close> \<open>null\<close>. A task whose joined agent is an object is returned with an
  agent whose \<open>external_agent_id\<close> is the result of \<open>maskUuid\<close> on the stored one (its
  first 8 characters followed by \<open>...\<close> when it is a string that is not empty), whose
  \<open>current_system_prompt\<close> and \<open>original_system_prompt\<close> are the placeholder
  \<open>[System prompt configured]\<close> when the stored one is truthy and \<open>null\<close> otherwise,
  and whose other properties are the stored ones.
\<close>

theorem task_agent_masked:
  assumes "authenticated env req userId"
    and "map_of (req_params req) ''action'' = Some ''tasks''"
    and "serve env req = (resp, queries)"
    and "resp_status resp = 200"
  shows "\<exists>data rows.
     store env (tasks_query (map_of (req_params req) ''assigned_to'')
       (map_of (req_params req) ''status'')) = Inr data
     \<and> resp_body resp = Some (JArr (map JObj rows))
     \<and> length rows = length data
     \<and> (\<forall>i < length data.
          (\<not> truthy_opt (map_of (data ! i) ''aitel_agents'')
             \<longrightarrow> map_of (rows ! i) ''aitel_agents'' = Some JNull)
          \<and> (\<forall>agent. map_of (data ! i) ''aitel_agents'' = Some (JObj agent) \<longrightarrow>
               (\<exists>a m. map_of (rows ! i) ''aitel_agents'' = Some (JObj a)
                  \<and> maskUuid_value env (map_of agent ''external_agent_id'') = Some m
                  \<and> map_of a ''external_agent_id'' = Some (JStr m)
                  \<and> (\<forall>u. map_of agent ''external_agent_id'' = Some (JStr u) \<and> u \<noteq> []
                        \<longrightarrow> m = take 8 u @ ''...'')
                  \<and> map_of a ''current_system_prompt''
                      = Some (maskSystemPrompt_value (map_of agent ''current_system_prompt''))
                  \<and> map_of a ''original_system_prompt''
                      = Some (maskSystemPrompt_value (map_of agent ''original_system_prompt''))
                  \<and> (\<forall>k. k \<notin> {''external_agent_id'', ''current_system_prompt'',
                                 ''original_system_prompt''}
                        \<longrightarrow> map_of a k = map_of agent k))))"
proof -
  let ?q = "tasks_query (map_of (req_params req) ''assigned_to'')
       (map_of (req_params req) ''status'')"
  let ?h = "fst (handle_tasks env (req_params req))"
  from assms(2) have "dispatch env (lookup_role env userId) (req_params req)
      = handle_tasks env (req_params req)"
    by (simp add: dispatch_def)
  with assms(3) serve_authenticated [OF assms(1)]
  have resp: "resp = (case ?h of Some r \<Rightarrow> r
                      | None \<Rightarrow> error_response 500 ''Internal server error'')"
    by simp
  from handle_tasks_cases [of env "req_params req"]
  consider (failed) message where "?h = Some (error_response 500 message)"
    | (thrown) "?h = None"
    | (rows) data r where "store env ?q = Inr data" "?h = Some r"
      "rows_response (mask_task env) data = Some r"
    by (cases ?h) auto
  then show ?thesis
  proof cases
    case failed
    with resp assms(4) show ?thesis by simp
  next
    case thrown
    with resp assms(4) show ?thesis by simp
  next
    case rows
    with resp have rr: "resp = r" by simp
    from rows_response_Some [OF rows(3)] rr obtain rws where
      r: "resp = ok_response (JArr (map JObj rws))"
      and all: "list_all2 (\<lambda>c r. mask_task env c = Some r) data rws"
      by blast
    from all have len: "length rws = length data"
      by (simp add: list_all2_lengthD)
    have nth: "mask_task env (data ! i) = Some (rws ! i)" if "i < length data" for i
      using all that by (rule list_all2_nthD)
    have body: "resp_body resp = Some (JArr (map JObj rws))" by (simp add: r)
    have per: "\<forall>i < length data.
          (\<not> truthy_opt (map_of (data ! i) ''aitel_agents'')
             \<longrightarrow> map_of (rws ! i) ''aitel_agents'' = Some JNull)
          \<and> (\<forall>agent. map_of (data ! i) ''aitel_agents'' = Some (JObj agent) \<longrightarrow>
               (\<exists>a m. map_of (rws ! i) ''aitel_agents'' = Some (JObj a)
                  \<and> maskUuid_value env (map_of agent ''external_agent_id'') = Some m
                  \<and> map_of a ''external_agent_id'' = Some (JStr m)
                  \<and> (\<forall>u. map_of agent ''external_agent_id'' = Some (JStr u) \<and> u \<noteq> []
                        \<longrightarrow> m = take 8 u @ ''...'')
                  \<and> map_of a ''current_system_prompt''
                      = Some (maskSystemPrompt_value (map_of agent ''current_system_prompt''))
                  \<and> map_of a ''original_system_prompt''
                      = Some (maskSystemPrompt_value (map_of agent ''original_system_prompt''))
                  \<and> (\<forall>k. k \<notin> {''external_agent_id'', ''current_system_prompt'',
                                 ''original_system_prompt''}
                        \<longrightarrow> map_of a k = map_of agent k)))"
    proof (intro allI impI conjI)
      fix i
      assume i: "i < length data"
        and "\<not> truthy_opt (map_of (data ! i) ''aitel_agents'')"
      with mask_task_agent(1) [OF nth [OF i]]
      show "map_of (rws ! i) ''aitel_agents'' = Some JNull" by simp
    next
      fix i agent
      assume i: "i < length data"
        and ag: "map_of (data ! i) ''aitel_agents'' = Some (JObj agent)"
      from mask_task_agent(2) [OF nth [OF i], of agent] ag obtain a m where
        a1: "map_of (rws ! i) ''aitel_agents'' = Some (JObj a)"
        and a2: "maskUuid_value env (map_of agent ''external_agent_id'') = Some m"
        and a3: "map_of a ''external_agent_id'' = Some (JStr m)"
        and a4: "map_of a ''current_system_prompt''
                      = Some (maskSystemPrompt_value (map_of agent ''current_system_prompt''))"
        and a5: "map_of a ''original_system_prompt''
                      = Some (maskSystemPrompt_value (map_of agent ''original_system_prompt''))"
        and a6: "\<forall>k. k \<notin> {''external_agent_id'', ''current_system_prompt'',
                                 ''original_system_prompt''}
                        \<longrightarrow> map_of a k = map_of agent k"
        by blast
      from a2 have a7: "\<forall>u. map_of agent ''external_agent_id'' = Some (JStr u) \<and> u \<noteq> []
                        \<longrightarrow> m = take 8 u @ ''...''"
        by (auto simp: maskUuid_value_def maskUuid_def)
      show "\<exists>a m. map_of (rws ! i) ''aitel_agents'' = Some (JObj a)
                  \<and> maskUuid_value env (map_of agent ''external_agent_id'') = Some m
                  \<and> map_of a ''external_agent_id'' = Some (JStr m)
                  \<and> (\<forall>u. map_of agent ''external_agent_id'' = Some (JStr u) \<and> u \<noteq> []
                        \<longrightarrow> m = take 8 u @ ''...'')
                  \<and> map_of a ''current_system_prompt''
                      = Some (maskSystemPrompt_value (map_of agent ''current_system_prompt''))
                  \<and> map_of a ''original_system_prompt''
                      = Some (maskSystemPrompt_value (map_of agent ''original_system_prompt''))
                  \<and> (\<forall>k. k \<notin> {''external_agent_id'', ''current_system_prompt'',
                                 ''original_system_prompt''}
                        \<longrightarrow> map_of a k = map_of agent k)"
        by (rule exI [of _ a], rule exI [of _ m]) (intro conjI a1 a2 a3 a7 a4 a5 a6)
    qed
    show ?thesis
      by (rule exI [of _ data], rule exI [of _ rws]) (intro conjI rows(1) body len per)
  qed
qed

text \<open>The task of the examples, asked for by the admin: the agent's external id is
  masked to its first 8 characters, and the prompts, which the row does not have,
  are \<open>null\<close>.\<close>

theorem task_agent_masked_witness:
  "\<exists>rows. resp_body (fst (serve (memory_env ''adm-1'' sample_db)
          (get_request [(''action'', ''tasks'')])))
        = Some (JArr (map JObj rows))
     \<and> length rows = 1
     \<and> (\<exists>a. map_of (rows ! 0) ''aitel_agents'' = Some (JObj a)
           \<and> map_of a ''external_agent_id'' = Some (JStr ''01234567...'')
           \<and> map_of a ''current_system_prompt'' = Some JNull
           \<and> map_of a ''agent_name'' = Some (JStr ''Asha''))"
proof -
  let ?E = "memory_env ''adm-1'' sample_db"
  let ?R = "get_request [(''action'', ''tasks'')]"
  let ?agent = "[(''agent_name'', JStr ''Asha''),
             (''external_agent_id'', JStr ''0123456789abcdef'')]"
  let ?t1 = "[(''id'', JStr ''t1''), (''title'', JStr ''Demo''), (''assigned_to'', JStr ''eng-1''),
          (''aitel_agents'', JObj ?agent)]"
  have auth: "authenticated ?E ?R ''adm-1''"
    by (simp add: authenticated_def memory_env_def get_request_def)
  have act: "map_of (req_params ?R) ''action'' = Some ''tasks''"
    by (simp add: get_request_def)
  have st: "resp_status (fst (serve ?E ?R)) = 200"
    by code_simp
  have pair: "serve ?E ?R = (fst (serve ?E ?R), snd (serve ?E ?R))"
    by simp
  have stored: "store ?E (tasks_query (map_of (req_params ?R) ''assigned_to'')
       (map_of (req_params ?R) ''status'')) = Inr [?t1]"
    by (simp add: memory_env_def get_request_def tasks_query_def memory_store_def sample_db_def)
  from task_agent_masked [OF auth act pair st] obtain data rows where
    d: "store ?E (tasks_query (map_of (req_params ?R) ''assigned_to'')
       (map_of (req_params ?R) ''status'')) = Inr data"
    and b: "resp_body (fst (serve ?E ?R)) = Some (JArr (map JObj rows))"
    and len: "length rows = length data"
    and per: "\<forall>i < length data.
          (\<not> truthy_opt (map_of (data ! i) ''aitel_agents'')
             \<longrightarrow> map_of (rows ! i) ''aitel_agents'' = Some JNull)
          \<and> (\<forall>agent. map_of (data ! i) ''aitel_agents'' = Some (JObj agent) \<longrightarrow>
               (\<exists>a m. map_of (rows ! i) ''aitel_agents'' = Some (JObj a)
                  \<and> maskUuid_value ?E (map_of agent ''external_agent_id'') = Some m
                  \<and> map_of a ''external_agent_id'' = Some (JStr m)
                  \<and> (\<forall>u. map_of agent ''external_agent_id'' = Some (JStr u) \<and> u \<noteq> []
                        \<longrightarrow> m = take 8 u @ ''...'')
                  \<and> map_of a ''current_system_prompt''
                      = Some (maskSystemPrompt_value (map_of agent ''current_system_prompt''))
                  \<and> map_of a ''original_system_prompt''
                      = Some (maskSystemPrompt_value (map_of agent ''original_system_prompt''))
                  \<and> (\<forall>k. k \<notin> {''external_agent_id'', ''current_system_prompt'',
                                 ''original_system_prompt''}
                        \<longrightarrow> map_of a k = map_of agent k)))"
    by (elim exE conjE)
  from d stored have data: "data = [?t1]"
    by simp
  have i0: "0 < length data"
    unfolding data by simp
  have ag: "map_of (data ! 0) ''aitel_agents'' = Some (JObj ?agent)"
    unfolding data by simp
  from per [rule_format, OF i0, THEN conjunct2, rule_format, OF ag] obtain a m where
    a1: "map_of (rows ! 0) ''aitel_agents'' = Some (JObj a)"
    and a2: "maskUuid_value ?E (map_of ?agent ''external_agent_id'') = Some m"
    and a3: "map_of a ''external_agent_id'' = Some (JStr m)"
    and a7: "\<forall>u. map_of ?agent ''external_agent_id'' = Some (JStr u) \<and> u \<noteq> []
                        \<longrightarrow> m = take 8 u @ ''...''"
    and a4: "map_of a ''current_system_prompt''
                      = Some (maskSystemPrompt_value (map_of ?agent ''current_system_prompt''))"
    and a5: "map_of a ''original_system_prompt''
                      = Some (maskSystemPrompt_value (map_of ?agent ''original_system_prompt''))"
    and a6: "\<forall>k. k \<notin> {''external_agent_id'', ''current_system_prompt'',
                                 ''original_system_prompt''}
                        \<longrightarrow> map_of a k = map_of ?agent k"
    by (elim exE conjE)
  from a7 [rule_format, of "''0123456789abcdef''"] have m: "m = ''01234567...''"
    by simp
  from a4 have p: "map_of a ''current_system_prompt'' = Some JNull"
    by (simp add: maskSystemPrompt_value_def)
  from a6 [rule_format, of "''agent_name''"] have n: "map_of a ''agent_name'' = Some (JStr ''Asha'')"
    by simp
  from a1 a3 m p n have "\<exists>a. map_of (rows ! 0) ''aitel_agents'' = Some (JObj a)
           \<and> map_of a ''external_agent_id'' = Some (JStr ''01234567...'')
           \<and> map_of a ''current_system_prompt'' = Some JNull
           \<and> map_of a ''agent_name'' = Some (JStr ''Asha'')"
    by simp
  with b len data show ?thesis by auto
qed

section \<open>Sensitive text of the calls\<close>

lemma mask_active_call_fields:
  assumes "mask_active_call env c = Some r"
  shows "map_of r ''transcript'' = encrypt_field env (map_of c ''transcript'')"
    and "map_of r ''summary'' = encrypt_field env (map_of c ''summary'')"
    and "map_of r ''metadata'' = sanitizeMetadata env (map_of c ''metadata'')"
  using assms
  by (auto simp: mask_active_call_def bind_eq_Some_conv map_of_spread_with)

lemma mask_call_sensitive_fields:
  assumes "mask_call env c = Some r"
  shows "map_of r ''transcript'' = encrypt_field env (map_of c ''transcript'')"
    and "map_of r ''summary'' = encrypt_field env (map_of c ''summary'')"
    and "map_of r ''metadata'' = sanitizeMetadata env (map_of c ''metadata'')"
  using assms
  by (auto simp: mask_call_def bind_eq_Some_conv map_of_spread_with
      dest: mask_active_call_fields)

lemma encrypt_field_not_string: "encrypt_field env v \<noteq> Some (JStr s)"
  by (auto simp: encrypt_field_def split: option.splits json.splits)

lemma envelope_of_encryptData: "encryptData env s = Some p \<Longrightarrow> envelope_of env (JEnvelope p)"
  by (auto simp: envelope_of_def)

lemma sanitizeMetadata_extracted_data:
  assumes "sanitizeMetadata env v = Some m" and "js_prop m ''extracted_data'' = Some x"
  shows "envelope_of env x"
proof -
  have none: "map_of (allowed_fields y) ''extracted_data'' = None" for y
    by (simp add: map_of_allowed_fields copied_if_truthy_def copied_if_present_def)
  from assms show ?thesis
    by (auto simp: sanitizeMetadata_def Let_def none AList.update_conv'
        split: option.splits if_splits intro: envelope_of_encryptData)
qed

lemma sealed_rows:
  assumes "rows_response f data = Some resp"
    and "\<And>c r. f c = Some r \<Longrightarrow>
           map_of r ''transcript'' = encrypt_field env (map_of c ''transcript'')
           \<and> map_of r ''summary'' = encrypt_field env (map_of c ''summary'')
           \<and> map_of r ''metadata'' = sanitizeMetadata env (map_of c ''metadata'')"
  shows "\<exists>rows. resp = ok_response (JArr (map JObj rows))
     \<and> list_all2 (\<lambda>c r.
           map_of r ''transcript'' = encrypt_field env (map_of c ''transcript'')
           \<and> map_of r ''summary'' = encrypt_field env (map_of c ''summary'')
           \<and> map_of r ''metadata'' = sanitizeMetadata env (map_of c ''metadata''))
         data rows"
proof -
  from rows_response_Some [OF assms(1)] obtain rows where
    r: "resp = ok_response (JArr (map JObj rows))"
    and all: "list_all2 (\<lambda>c r. f c = Some r) data rows"
    by blast
  from all have "list_all2 (\<lambda>c r.
           map_of r ''transcript'' = encrypt_field env (map_of c ''transcript'')
           \<and> map_of r ''summary'' = encrypt_field env (map_of c ''summary'')
           \<and> map_of r ''metadata'' = sanitizeMetadata env (map_of c ''metadata''))
         data rows"
    by (rule list_all2_mono) (rule assms(2))
  with r show ?thesis by blast
qed

lemma sealed_dispatch:
  assumes "map_of params ''action'' = Some a"
    and "a = ''calls'' \<or> a = ''active_calls''"
    and "fst (dispatch env role params) = Some resp"
    and "resp_status resp = 200"
  shows "\<exists>q data rows. primary_query env role params = Some q \<and> store env q = Inr data
     \<and> resp = ok_response (JArr (map JObj rows))
     \<and> list_all2 (\<lambda>c r.
           map_of r ''transcript'' = encrypt_field env (map_of c ''transcript'')
           \<and> map_of r ''summary'' = encrypt_field env (map_of c ''summary'')
           \<and> map_of r ''metadata'' = sanitizeMetadata env (map_of c ''metadata''))
         data rows"
proof -
  from assms(2) show ?thesis
  proof
    assume a: "a = ''calls''"
    let ?q = "calls_query (map_of params ''client_id'') (map_of params ''start_date'')
                (map_of params ''status'')"
    from a assms(1) have pq: "primary_query env role params = Some ?q"
      by (simp add: primary_query_def)
    from a assms(1) assms(3) have h: "fst (handle_calls env params) = Some resp"
      by (simp add: dispatch_def)
    show ?thesis
    proof (cases "store env ?q")
      case (Inl m)
      with h have "resp = error_response 500 m"
        by (simp add: handle_calls_def Let_def)
      with assms(4) show ?thesis by simp
    next
      case (Inr data)
      with h have "rows_response (mask_call env) data = Some resp"
        by (simp add: handle_calls_def Let_def)
      from sealed_rows [OF this, of env] mask_call_sensitive_fields
      obtain rows where "resp = ok_response (JArr (map JObj rows))"
        "list_all2 (\<lambda>c r.
           map_of r ''transcript'' = encrypt_field env (map_of c ''transcript'')
           \<and> map_of r ''summary'' = encrypt_field env (map_of c ''summary'')
           \<and> map_of r ''metadata'' = sanitizeMetadata env (map_of c ''metadata''))
         data rows"
        by blast
      with pq Inr show ?thesis by blast
    qed
  next
    assume a: "a = ''active_calls''"
    from a assms(1) assms(3) have h: "fst (handle_active_calls env role) = Some resp"
      by (simp add: dispatch_def)
    have adm: "role = Some (JStr ''admin'')"
    proof (rule ccontr)
      assume "role \<noteq> Some (JStr ''admin'')"
      with h have "resp = error_response 403 ''Forbidden''"
        by (simp add: handle_active_calls_def forbidden_def)
      with assms(4) show False by simp
    qed
    with a assms(1) have pq: "primary_query env role params = Some active_calls_query"
      by (simp add: primary_query_def)
    show ?thesis
    proof (cases "store env active_calls_query")
      case (Inl m)
      with h adm have "resp = error_response 500 m"
        by (simp add: handle_active_calls_def)
      with assms(4) show ?thesis by simp
    next
      case (Inr data)
      with h adm have "rows_response (mask_active_call env) data = Some resp"
        by (simp add: handle_active_calls_def)
      from sealed_rows [OF this, of env] mask_active_call_fields
      obtain rows where "resp = ok_response (JArr (map JObj rows))"
        "list_all2 (\<lambda>c r.
           map_of r ''transcript'' = encrypt_field env (map_of c ''transcript'')
           \<and> map_of r ''summary'' = encrypt_field env (map_of c ''summary'')
           \<and> map_of r ''metadata'' = sanitizeMetadata env (map_of c ''metadata''))
         data rows"
        by blast
      with pq Inr show ?thesis by blast
    qed
  qed
qed

text \<open>
  X5. The actions \<open>calls\<close> and \<open>active_calls\<close> answered 200: the body has one row for
  each stored call fetched, in the same order, and in each row
  \<^item> \<open>transcript\<close> and \<open>summary\<close> are what the handler's
    \<open>x ? await encryptData(x) : null\<close> gives for the stored value: \<open>null\<close> when it is
    falsy, the envelope of \<open>encryptData\<close> otherwise; neither is a string;
  \<^item> \<open>metadata\<close> is \<open>sanitizeMetadata\<close> of the stored metadata, in which
    \<open>extracted_data\<close>, when there is one, is an envelope \<open>encryptData\<close> returned.
\<close>

theorem calls_text_sealed:
  assumes "authenticated env req userId"
    and "map_of (req_params req) ''action'' = Some a"
    and "a = ''calls'' \<or> a = ''active_calls''"
    and "serve env req = (resp, queries)"
    and "resp_status resp = 200"
  shows "\<exists>q data rows.
     primary_query env (lookup_role env userId) (req_params req) = Some q
     \<and> store env q = Inr data
     \<and> resp_body resp = Some (JArr (map JObj rows))
     \<and> length rows = length data
     \<and> (\<forall>i < length data.
          map_of (rows ! i) ''transcript'' = encrypt_field env (map_of (data ! i) ''transcript'')
          \<and> map_of (rows ! i) ''summary'' = encrypt_field env (map_of (data ! i) ''summary'')
          \<and> map_of (rows ! i) ''metadata'' = sanitizeMetadata env (map_of (data ! i) ''metadata'')
          \<and> (\<forall>s. map_of (rows ! i) ''transcript'' \<noteq> Some (JStr s))
          \<and> (\<forall>s. map_of (rows ! i) ''summary'' \<noteq> Some (JStr s))
          \<and> (\<forall>m x. map_of (rows ! i) ''metadata'' = Some m
                     \<and> js_prop m ''extracted_data'' = Some x
                 \<longrightarrow> envelope_of env x))"
proof -
  let ?d = "dispatch env (lookup_role env userId) (req_params req)"
  from assms(4) serve_authenticated [OF assms(1)]
  have resp: "resp = (case fst ?d of Some r \<Rightarrow> r
                      | None \<Rightarrow> error_response 500 ''Internal server error'')"
    by simp
  have d: "fst ?d = Some resp"
  proof (cases "fst ?d")
    case None
    with resp assms(5) show ?thesis by simp
  next
    case (Some r)
    with resp show ?thesis by simp
  qed
  from sealed_dispatch [OF assms(2) assms(3) d assms(5)] obtain q data rows where
    pq: "primary_query env (lookup_role env userId) (req_params req) = Some q"
    and st: "store env q = Inr data"
    and r: "resp = ok_response (JArr (map JObj rows))"
    and all: "list_all2 (\<lambda>c r.
           map_of r ''transcript'' = encrypt_field env (map_of c ''transcript'')
           \<and> map_of r ''summary'' = encrypt_field env (map_of c ''summary'')
           \<and> map_of r ''metadata'' = sanitizeMetadata env (map_of c ''metadata''))
         data rows"
    by (elim exE conjE)
  from all have len: "length rows = length data"
    by (simp add: list_all2_lengthD)
  have body: "resp_body resp = Some (JArr (map JObj rows))" by (simp add: r)
  have per: "\<forall>i < length data.
          map_of (rows ! i) ''transcript'' = encrypt_field env (map_of (data ! i) ''transcript'')
          \<and> map_of (rows ! i) ''summary'' = encrypt_field env (map_of (data ! i) ''summary'')
          \<and> map_of (rows ! i) ''metadata'' = sanitizeMetadata env (map_of (data ! i) ''metadata'')
          \<and> (\<forall>s. map_of (rows ! i) ''transcript'' \<noteq> Some (JStr s))
          \<and> (\<forall>s. map_of (rows ! i) ''summary'' \<noteq> Some (JStr s))
          \<and> (\<forall>m x. map_of (rows ! i) ''metadata'' = Some m
                     \<and> js_prop m ''extracted_data'' = Some x
                 \<longrightarrow> envelope_of env x)"
  proof (intro allI impI)
    fix i
    assume i: "i < length data"
    from list_all2_nthD [OF all i]
    have t: "map_of (rows ! i) ''transcript'' = encrypt_field env (map_of (data ! i) ''transcript'')"
      and s: "map_of (rows ! i) ''summary'' = encrypt_field env (map_of (data ! i) ''summary'')"
      and m: "map_of (rows ! i) ''metadata'' = sanitizeMetadata env (map_of (data ! i) ''metadata'')"
      by simp_all
    have nt: "\<forall>s. map_of (rows ! i) ''transcript'' \<noteq> Some (JStr s)"
      unfolding t by (simp add: encrypt_field_not_string)
    have ns: "\<forall>s. map_of (rows ! i) ''summary'' \<noteq> Some (JStr s)"
      unfolding s by (simp add: encrypt_field_not_string)
    have ne: "\<forall>m x. map_of (rows ! i) ''metadata'' = Some m
                     \<and> js_prop m ''extracted_data'' = Some x
                 \<longrightarrow> envelope_of env x"
      unfolding m by (blast intro: sanitizeMetadata_extracted_data)
    show "map_of (rows ! i) ''transcript'' = encrypt_field env (map_of (data ! i) ''transcript'')
          \<and> map_of (rows ! i) ''summary'' = encrypt_field env (map_of (data ! i) ''summary'')
          \<and> map_of (rows ! i) ''metadata'' = sanitizeMetadata env (map_of (data ! i) ''metadata'')
          \<and> (\<forall>s. map_of (rows ! i) ''transcript'' \<noteq> Some (JStr s))
          \<and> (\<forall>s. map_of (rows ! i) ''summary'' \<noteq> Some (JStr s))
          \<and> (\<forall>m x. map_of (rows ! i) ''metadata'' = Some m
                     \<and> js_prop m ''extracted_data'' = Some x
                 \<longrightarrow> envelope_of env x)"
      by (intro conjI t s m nt ns ne)
  qed
  show ?thesis
    by (rule exI [of _ q], rule exI [of _ data], rule exI [of _ rows])
       (intro conjI pq st body len per)
qed

text \<open>The call \<open>c1\<close> of the examples, asked for by the admin: its transcript and its
  summary leave as envelopes, and its metadata with the two allow-listed keys and
  the envelope of the extracted data.\<close>

theorem calls_text_sealed_witness:
  "\<exists>rows. resp_body (fst (serve (memory_env ''adm-1'' sample_db)
          (get_request [(''action'', ''calls''), (''client_id'', ''C1'')])))
        = Some (JArr (map JObj rows))
     \<and> length rows = 1
     \<and> map_of (rows ! 0) ''transcript''
         = Some (JEnvelope (EncryptedPayload ''AES-256-GCM'' ''iv'' ''tag'' ''olleh''))
     \<and> map_of (rows ! 0) ''summary''
         = Some (JEnvelope (EncryptedPayload ''AES-256-GCM'' ''iv'' ''tag'' ''kcabllac a stnaw''))
     \<and> map_of (rows ! 0) ''metadata''
         = Some (JObj [(''source'', JStr ''fb''), (''lead_name'', JStr ''Jane''),
              (''extracted_data'',
                 JEnvelope (EncryptedPayload ''AES-256-GCM'' ''iv'' ''tag'' ''tegdub''))])"
proof -
  let ?E = "memory_env ''adm-1'' sample_db"
  let ?R = "get_request [(''action'', ''calls''), (''client_id'', ''C1'')]"
  let ?c1 = "[(''id'', JStr ''c1''), (''client_id'', JStr ''C1''), (''lead_id'', JStr ''L1''),
          (''status'', JStr ''completed''), (''connected'', JBool True),
          (''duration_seconds'', JNum 42),
          (''created_at'', JStr ''2026-01-02T10:00:00.000Z''),
          (''summary'', JStr ''wants a callback''), (''transcript'', JStr ''hello''),
          (''recording_url'', JStr ''https://store.example/r.mp3''),
          (''metadata'', JObj [(''source'', JStr ''fb''), (''secret_token'', JStr ''xyz''),
             (''lead_name'', JStr ''Jane''), (''extracted_data'', JStr ''budget'')])]"
  have auth: "authenticated ?E ?R ''adm-1''"
    by (simp add: authenticated_def memory_env_def get_request_def)
  have act: "map_of (req_params ?R) ''action'' = Some ''calls''"
    by (simp add: get_request_def)
  have st: "resp_status (fst (serve ?E ?R)) = 200"
    by code_simp
  have pair: "serve ?E ?R = (fst (serve ?E ?R), snd (serve ?E ?R))"
    by simp
  have q: "primary_query ?E (lookup_role ?E ''adm-1'') (req_params ?R)
      = Some (calls_query (Some ''C1'') None None)"
    by (simp add: primary_query_def get_request_def)
  have stored: "store ?E (calls_query (Some ''C1'') None None) = Inr [?c1]"
    by (simp add: memory_env_def calls_query_def memory_store_def sample_db_def)
  have enc: "encrypt_field ?E (Some (JStr ''hello''))
        = Some (JEnvelope (EncryptedPayload ''AES-256-GCM'' ''iv'' ''tag'' ''olleh''))"
      "encrypt_field ?E (Some (JStr ''wants a callback''))
        = Some (JEnvelope (EncryptedPayload ''AES-256-GCM'' ''iv'' ''tag'' ''kcabllac a stnaw''))"
    by (simp_all add: encrypt_field_def memory_env_def seal_def)
  have san: "sanitizeMetadata ?E (Some (JObj [(''source'', JStr ''fb''),
             (''secret_token'', JStr ''xyz''), (''lead_name'', JStr ''Jane''),
             (''extracted_data'', JStr ''budget'')]))
      = Some (JObj [(''source'', JStr ''fb''), (''lead_name'', JStr ''Jane''),
              (''extracted_data'',
                 JEnvelope (EncryptedPayload ''AES-256-GCM'' ''iv'' ''tag'' ''tegdub''))])"
    by code_simp
  from calls_text_sealed [OF auth act _ pair st] obtain q' data rows where
    pq: "primary_query ?E (lookup_role ?E ''adm-1'') (req_params ?R) = Some q'"
    and d: "store ?E q' = Inr data"
    and b: "resp_body (fst (serve ?E ?R)) = Some (JArr (map JObj rows))"
    and len: "length rows = length data"
    and per: "\<forall>i < length data.
          map_of (rows ! i) ''transcript'' = encrypt_field ?E (map_of (data ! i) ''transcript'')
          \<and> map_of (rows ! i) ''summary'' = encrypt_field ?E (map_of (data ! i) ''summary'')
          \<and> map_of (rows ! i) ''metadata'' = sanitizeMetadata ?E (map_of (data ! i) ''metadata'')
          \<and> (\<forall>s. map_of (rows ! i) ''transcript'' \<noteq> Some (JStr s))
          \<and> (\<forall>s. map_of (rows ! i) ''summary'' \<noteq> Some (JStr s))
          \<and> (\<forall>m x. map_of (rows ! i) ''metadata'' = Some m
                     \<and> js_prop m ''extracted_data'' = Some x
                 \<longrightarrow> envelope_of ?E x)"
    by auto
  from pq q have "q' = calls_query (Some ''C1'') None None"
    by simp
  with d stored have data: "data = [?c1]"
    by simp
  have i0: "0 < length data"
    unfolding data by simp
  from per [rule_format, OF i0]
  have "map_of (rows ! 0) ''transcript'' = encrypt_field ?E (map_of (data ! 0) ''transcript'')"
    and "map_of (rows ! 0) ''summary'' = encrypt_field ?E (map_of (data ! 0) ''summary'')"
    and "map_of (rows ! 0) ''metadata'' = sanitizeMetadata ?E (map_of (data ! 0) ''metadata'')"
    by simp_all
  then have "map_of (rows ! 0) ''transcript''
         = Some (JEnvelope (EncryptedPayload ''AES-256-GCM'' ''iv'' ''tag'' ''olleh''))
     \<and> map_of (rows ! 0) ''summary''
         = Some (JEnvelope (EncryptedPayload ''AES-256-GCM'' ''iv'' ''tag'' ''kcabllac a stnaw''))
     \<and> map_of (rows ! 0) ''metadata''
         = Some (JObj [(''source'', JStr ''fb''), (''lead_name'', JStr ''Jane''),
              (''extracted_data'',
                 JEnvelope (EncryptedPayload ''AES-256-GCM'' ''iv'' ''tag'' ''tegdub''))])"
    unfolding data using enc san by simp
  with b len data show ?thesis by auto
qed

end
